theory Spec2Isabelle
  imports Complex_Main "HOL-Library.AList" "HOL-Library.Product_Lexorder"
begin

section \<open>Data model\<close>

text \<open>
  Python floats are modelled as real numbers, Python ints as \<open>int\<close>, strings as \<open>string\<close>.
  A value of type \<open>Any\<close> or a free-form dictionary is a JSON value; a JSON object keeps the
  insertion order of its keys, as a Python dict does.
\<close>

datatype json =
    JNull
  | JBool bool
  | JInt int
  | JNum real
  | JStr string
  | JArr "json list"
  | JObj "(string \<times> json) list"

text \<open>The dataclass \<open>GraphNode\<close> of graph_builder_clean.py, field by field.\<close>

record GraphNode =
  n_id :: string
  n_type :: string
  n_content :: string
  n_value :: json
  n_timestamp :: string
  n_confidence :: real
  n_source :: string
  n_tags :: "string list"
  n_audience_relevance :: "(string \<times> real) list"
  n_embedding :: "real list"
  n_metadata :: json

text \<open>The dataclass \<open>GraphEdge\<close>.\<close>

record GraphEdge =
  e_source_id :: string
  e_target_id :: string
  e_relationship_type :: string
  e_weight :: real
  e_confidence :: real
  e_semantic_similarity :: real
  e_metadata :: json

text \<open>
  The state of a \<open>FlowMetricsGraphBuilder\<close>: \<open>self.nodes\<close> is a dict from node id to node
  (an association list in insertion order), \<open>self.edges\<close> a list. The networkx graph is
  written next to them and read only by the edge-list export; it is left out.
\<close>

record builder =
  b_nodes :: "(string \<times> GraphNode) list"
  b_edges :: "GraphEdge list"

definition init_builder :: builder where
  "init_builder = \<lparr>b_nodes = [], b_edges = []\<rparr>"

text \<open>A data point as the extractor hands it to \<open>create_graph_nodes\<close>.\<close>

record data_point =
  p_type :: string
  p_content :: string
  p_value :: json
  p_timestamp :: string
  p_confidence :: real
  p_source :: string
  p_tags :: "string list"
  p_metadata :: json

section \<open>Graph builder\<close>

subsection \<open>Nodes\<close>

text \<open>
  \<open>create_graph_nodes\<close>. Three collaborators are parameters: \<open>uuid4 i\<close> is the identifier
  drawn for the \<open>i\<close>-th data point, \<open>encode\<close> is the sentence model on one content string,
  and \<open>relevance\<close> is \<open>calculate_audience_relevance\<close>. The statement
  \<open>self.nodes[node_id] = node\<close> is a dict store: an existing key keeps its place and gets
  the new value.
\<close>

definition make_node ::
  "string \<Rightarrow> (string \<times> real) list \<Rightarrow> real list \<Rightarrow> data_point \<Rightarrow> GraphNode" where
  "make_node node_id audience_relevance embedding point =
     \<lparr>n_id = node_id, n_type = p_type point, n_content = p_content point,
      n_value = p_value point, n_timestamp = p_timestamp point,
      n_confidence = p_confidence point, n_source = p_source point,
      n_tags = p_tags point, n_audience_relevance = audience_relevance,
      n_embedding = embedding, n_metadata = p_metadata point\<rparr>"

fun create_nodes_loop ::
  "(nat \<Rightarrow> string) \<Rightarrow> (string \<Rightarrow> real list) \<Rightarrow> (string \<Rightarrow> string list \<Rightarrow> (string \<times> real) list)
   \<Rightarrow> nat \<Rightarrow> data_point list \<Rightarrow> (string \<times> GraphNode) list \<Rightarrow> (string \<times> GraphNode) list" where
  "create_nodes_loop uuid4 encode relevance i [] nodes = nodes"
| "create_nodes_loop uuid4 encode relevance i (point # points) nodes =
     (let node_id = uuid4 i;
          node = make_node node_id (relevance (p_content point) (p_tags point))
                   (encode (p_content point)) point
      in create_nodes_loop uuid4 encode relevance (Suc i) points
           (AList.update node_id node nodes))"

definition create_graph_nodes ::
  "(nat \<Rightarrow> string) \<Rightarrow> (string \<Rightarrow> real list) \<Rightarrow> (string \<Rightarrow> string list \<Rightarrow> (string \<times> real) list)
   \<Rightarrow> data_point list \<Rightarrow> builder \<Rightarrow> builder" where
  "create_graph_nodes uuid4 encode relevance data_points b =
     b\<lparr>b_nodes := create_nodes_loop uuid4 encode relevance 0 data_points (b_nodes b)\<rparr>"

subsection \<open>Relationship analysis\<close>

text \<open>
  \<open>_analyze_relationship\<close>: the tag overlap divides the number of distinct shared tags by
  the longer of the two tag lists (list lengths, duplicates counted), at least 1. The two
  type rules are two separate \<open>if\<close> statements, in this order.
\<close>

definition is_causal_pair :: "GraphNode \<Rightarrow> GraphNode \<Rightarrow> bool" where
  "is_causal_pair node1 node2 \<longleftrightarrow>
     (n_type node1 = ''insight'' \<and> n_type node2 = ''metric'') \<or>
     (n_type node2 = ''insight'' \<and> n_type node1 = ''metric'')"

definition is_influence_pair :: "GraphNode \<Rightarrow> GraphNode \<Rightarrow> bool" where
  "is_influence_pair node1 node2 \<longleftrightarrow>
     (n_type node1 = ''event'' \<and> n_type node2 \<in> set [''metric'', ''insight'']) \<or>
     (n_type node2 = ''event'' \<and> n_type node1 \<in> set [''metric'', ''insight''])"

definition tag_overlap :: "GraphNode \<Rightarrow> GraphNode \<Rightarrow> real" where
  "tag_overlap node1 node2 =
     real (card (set (n_tags node1) \<inter> set (n_tags node2))) /
     real (max (max (length (n_tags node1)) (length (n_tags node2))) 1)"

definition analyze_relationship :: "GraphNode \<Rightarrow> GraphNode \<Rightarrow> real \<Rightarrow> string \<times> real \<times> real" where
  "analyze_relationship node1 node2 similarity =
     (let shared_tags = set (n_tags node1) \<inter> set (n_tags node2);
          r0 = (''relevance'', similarity, 0.7);
          r1 = (if is_causal_pair node1 node2 \<and>
                   list_ex (\<lambda>tag. tag \<in> shared_tags) [''growth'', ''improvement'', ''performance'']
                then (''causality'', min (fst (snd r0) * 1.3) 1.0, 0.8) else r0);
          r2 = (if is_influence_pair node1 node2
                then (''influence'', min (fst (snd r1) * 1.2) 1.0, 0.75) else r1);
          final_weight = min (fst (snd r2) * (1 + tag_overlap node1 node2 * 0.5)) 1.0
      in (fst r2, final_weight, snd (snd r2)))"

subsection \<open>Edges\<close>

text \<open>
  \<open>create_semantic_edges\<close>. \<open>cosine\<close> is scikit-learn's cosine similarity of two embeddings
  and \<open>set_list\<close> the order in which Python lists a set of strings; both are parameters.
  \<open>classify_pair\<close> is the body of the inner loop for one pair, \<open>pair_loop\<close> the inner loop
  over \<open>node_list[i+1:]\<close>, \<open>edge_loop\<close> the outer loop.
\<close>

definition classify_pair ::
  "(real list \<Rightarrow> real list \<Rightarrow> real) \<Rightarrow> (string set \<Rightarrow> string list) \<Rightarrow> real
   \<Rightarrow> GraphNode \<Rightarrow> GraphNode \<Rightarrow> GraphEdge option" where
  "classify_pair cosine set_list similarity_threshold node1 node2 =
     (let similarity = cosine (n_embedding node1) (n_embedding node2);
          r = analyze_relationship node1 node2 similarity;
          weight = fst (snd r)
      in if similarity > similarity_threshold \<and> weight > 0
         then Some \<lparr>e_source_id = n_id node1, e_target_id = n_id node2,
                    e_relationship_type = fst r, e_weight = weight,
                    e_confidence = snd (snd r), e_semantic_similarity = similarity,
                    e_metadata = JObj
                      [(''similarity_score'', JNum similarity),
                       (''source_types'', JStr (n_type node1 @ ''-'' @ n_type node2)),
                       (''shared_tags'',
                          JArr (map JStr (set_list (set (n_tags node1) \<inter> set (n_tags node2)))))]\<rparr>
         else None)"

fun pair_loop ::
  "(real list \<Rightarrow> real list \<Rightarrow> real) \<Rightarrow> (string set \<Rightarrow> string list) \<Rightarrow> real
   \<Rightarrow> GraphNode \<Rightarrow> GraphNode list \<Rightarrow> GraphEdge list" where
  "pair_loop cosine set_list th node1 [] = []"
| "pair_loop cosine set_list th node1 (node2 # rest) =
     (case classify_pair cosine set_list th node1 node2 of
        None \<Rightarrow> pair_loop cosine set_list th node1 rest
      | Some edge \<Rightarrow> edge # pair_loop cosine set_list th node1 rest)"

fun edge_loop ::
  "(real list \<Rightarrow> real list \<Rightarrow> real) \<Rightarrow> (string set \<Rightarrow> string list) \<Rightarrow> real
   \<Rightarrow> GraphNode list \<Rightarrow> GraphEdge list" where
  "edge_loop cosine set_list th [] = []"
| "edge_loop cosine set_list th (node1 # rest) =
     pair_loop cosine set_list th node1 rest @ edge_loop cosine set_list th rest"

definition create_semantic_edges ::
  "(real list \<Rightarrow> real list \<Rightarrow> real) \<Rightarrow> (string set \<Rightarrow> string list) \<Rightarrow> real
   \<Rightarrow> builder \<Rightarrow> builder" where
  "create_semantic_edges cosine set_list similarity_threshold b =
     b\<lparr>b_edges := b_edges b @
          edge_loop cosine set_list similarity_threshold (map snd (b_nodes b))\<rparr>"

text \<open>
  A graph build as generate_graph.py runs it: a fresh builder, the nodes, then the edges
  with the caller's threshold.
\<close>

definition build_graph ::
  "(nat \<Rightarrow> string) \<Rightarrow> (string \<Rightarrow> real list) \<Rightarrow> (string \<Rightarrow> string list \<Rightarrow> (string \<times> real) list)
   \<Rightarrow> (real list \<Rightarrow> real list \<Rightarrow> real) \<Rightarrow> (string set \<Rightarrow> string list) \<Rightarrow> real
   \<Rightarrow> data_point list \<Rightarrow> builder" where
  "build_graph uuid4 encode relevance cosine set_list similarity_threshold data_points =
     create_semantic_edges cosine set_list similarity_threshold
       (create_graph_nodes uuid4 encode relevance data_points init_builder)"


subsection \<open>Auxiliary notions for the builder\<close>

text \<open>
  The invariant of the dict \<open>self.nodes\<close>: keys are distinct and every node is stored
  under its own id. \<open>endpoints\<close> is the unordered pair of nodes an edge connects.
\<close>

definition nodes_ok :: "(string \<times> GraphNode) list \<Rightarrow> bool" where
  "nodes_ok nodes \<longleftrightarrow> distinct (map fst nodes) \<and> (\<forall>(k, n) \<in> set nodes. n_id n = k)"

definition endpoints :: "GraphEdge \<Rightarrow> string set" where
  "endpoints e = {e_source_id e, e_target_id e}"

text \<open>
  The weight formula in the words of the specification (section 4.3, steps 2 to 5): the
  multiplier of the relationship type, the base weight capped at 1, the tag boost.
\<close>

definition spec_tag_overlap :: "GraphNode \<Rightarrow> GraphNode \<Rightarrow> real" where
  "spec_tag_overlap a b =
     real (card (set (n_tags a) \<inter> set (n_tags b))) /
     real (Max {length (n_tags a), length (n_tags b), 1})"

definition spec_multiplier :: "GraphNode \<Rightarrow> GraphNode \<Rightarrow> real" where
  "spec_multiplier a b =
     (if {n_type a, n_type b} = {''insight'', ''metric''} \<and>
         set (n_tags a) \<inter> set (n_tags b) \<inter> {''growth'', ''improvement'', ''performance''} \<noteq> {}
      then 1.3
      else if (n_type a = ''event'' \<and> n_type b \<in> {''metric'', ''insight''}) \<or>
              (n_type b = ''event'' \<and> n_type a \<in> {''metric'', ''insight''})
      then 1.2
      else 1.0)"

definition spec_final_weight :: "GraphNode \<Rightarrow> GraphNode \<Rightarrow> real \<Rightarrow> real" where
  "spec_final_weight a b s =
     min (min (s * spec_multiplier a b) 1.0 * (1 + spec_tag_overlap a b * 0.5)) 1.0"

text \<open>Sample inputs.\<close>

definition demo_point :: "string \<Rightarrow> string list \<Rightarrow> data_point" where
  "demo_point t tags = \<lparr>p_type = t, p_content = ''weekly revenue'', p_value = JNum 1,
     p_timestamp = ''2025-01-01'', p_confidence = 0.9, p_source = ''revenue_metrics'',
     p_tags = tags, p_metadata = JObj []\<rparr>"

definition demo_uuid :: "nat \<Rightarrow> string" where
  "demo_uuid i = (if i = 0 then ''n0'' else if i = 1 then ''n1'' else ''n2'')"

definition demo_node :: "string \<Rightarrow> string \<Rightarrow> string list \<Rightarrow> GraphNode" where
  "demo_node i t tags = make_node i [(''investors'', 0.4)] [1, 0] (demo_point t tags)"


subsection \<open>Persistence\<close>

text \<open>
  \<open>save_graph\<close> writes three JSON documents; the model returns them as JSON values, of
  which the written text is a function. The two calls of \<open>datetime.now().isoformat()\<close>
  are the parameters \<open>now1\<close> and \<open>now2\<close>; \<open>set_list\<close> is \<open>list(set(...))\<close>, the order in which
  the running Python process lists a set of strings (it depends on the hash seed of the
  process, so two processes may differ in it).
  \<open>count_into\<close> is the statement \<open>d[k] = d.get(k, 0) + 1\<close>.
\<close>


definition asdict_node :: "GraphNode \<Rightarrow> json" where
  "asdict_node n = JObj
     [(''id'', JStr (n_id n)), (''type'', JStr (n_type n)), (''content'', JStr (n_content n)),
      (''value'', n_value n), (''timestamp'', JStr (n_timestamp n)),
      (''confidence'', JNum (n_confidence n)), (''source'', JStr (n_source n)),
      (''tags'', JArr (map JStr (n_tags n))),
      (''audience_relevance'', JObj (map (\<lambda>kv. (fst kv, JNum (snd kv))) (n_audience_relevance n))),
      (''embedding'', JArr (map JNum (n_embedding n))),
      (''metadata'', n_metadata n)]"

definition asdict_edge :: "GraphEdge \<Rightarrow> json" where
  "asdict_edge e = JObj
     [(''source_id'', JStr (e_source_id e)), (''target_id'', JStr (e_target_id e)),
      (''relationship_type'', JStr (e_relationship_type e)), (''weight'', JNum (e_weight e)),
      (''confidence'', JNum (e_confidence e)),
      (''semantic_similarity'', JNum (e_semantic_similarity e)),
      (''metadata'', e_metadata e)]"

definition count_into :: "(string \<times> int) list \<Rightarrow> string \<Rightarrow> (string \<times> int) list" where
  "count_into d k = AList.update k ((case map_of d k of None \<Rightarrow> 0 | Some c \<Rightarrow> c) + 1) d"

definition count_by :: "string list \<Rightarrow> json" where
  "count_by ks = JObj (map (\<lambda>kv. (fst kv, JInt (snd kv))) (foldl count_into [] ks))"

definition audiences :: "string list" where
  "audiences = [''investors'', ''customers'', ''internal_team'', ''developer_community'']"

definition relevance_get :: "(string \<times> real) list \<Rightarrow> string \<Rightarrow> real" where
  "relevance_get d audience = (case map_of d audience of None \<Rightarrow> 0 | Some v \<Rightarrow> v)"

record saved_graph =
  nodes_json :: json
  edges_json :: json
  summary_json :: json

definition save_graph :: "(string set \<Rightarrow> string list) \<Rightarrow> string \<Rightarrow> string \<Rightarrow> builder \<Rightarrow> saved_graph" where
  "save_graph set_list now1 now2 b =
     (let nodes = map snd (b_nodes b);
          edges = b_edges b;
          nodes_data = JObj
            [(''metadata'', JObj
                [(''total_nodes'', JInt (int (length (b_nodes b)))),
                 (''node_types'', JArr (map JStr (set_list (set (map n_type nodes))))),
                 (''creation_timestamp'', JStr now1)]),
             (''nodes'', JArr (map asdict_node nodes))];
          edges_data = JObj
            [(''metadata'', JObj
                [(''total_edges'', JInt (int (length edges))),
                 (''relationship_types'',
                    JArr (map JStr (set_list (set (map e_relationship_type edges))))),
                 (''creation_timestamp'', JStr now2)]),
             (''edges'', JArr (map asdict_edge edges))];
          summary = JObj
            [(''graph_summary'', JObj
                [(''total_nodes'', JInt (int (length (b_nodes b)))),
                 (''total_edges'', JInt (int (length edges))),
                 (''node_types'', count_by (map n_type nodes)),
                 (''relationship_types'', count_by (map e_relationship_type edges)),
                 (''audience_coverage'', JObj (map (\<lambda>audience.
                     (audience, JInt (int (length (filter
                        (\<lambda>n. relevance_get (n_audience_relevance n) audience > 0.3) nodes)))))
                     audiences)),
                 (''source_distribution'', count_by (map n_source nodes))])]
      in \<lparr>nodes_json = nodes_data, edges_json = edges_data, summary_json = summary\<rparr>)"

text \<open>
  A document without the entries of its metadata that have one of the given keys, to
  compare two documents up to those entries.
\<close>

definition drop_metadata_entries :: "string list \<Rightarrow> json \<Rightarrow> json" where
  "drop_metadata_entries keys doc =
     (case doc of
        JObj ((k, JObj m) # rest) \<Rightarrow>
          if k = ''metadata''
          then JObj ((k, JObj (filter (\<lambda>kv. fst kv \<notin> set keys) m)) # rest)
          else doc
      | _ \<Rightarrow> doc)"

definition demo_builder :: builder where
  "demo_builder = \<lparr>b_nodes = [(''n0'', demo_node ''n0'' ''metric'' [''revenue''])], b_edges = []\<rparr>"

definition demo_builder2 :: builder where
  "demo_builder2 =
     \<lparr>b_nodes = [(''n0'', demo_node ''n0'' ''metric'' [''revenue'']),
                (''n1'', demo_node ''n1'' ''insight'' [''growth''])],
      b_edges = []\<rparr>"

definition types_order1 :: "string set \<Rightarrow> string list" where
  "types_order1 S = filter (\<lambda>t. t \<in> S) [''metric'', ''insight'']"

definition types_order2 :: "string set \<Rightarrow> string list" where
  "types_order2 S = filter (\<lambda>t. t \<in> S) [''insight'', ''metric'']"

definition demo_set_list :: "string set \<Rightarrow> string list" where
  "demo_set_list S = (if ''metric'' \<in> S then [''metric''] else [])"



section \<open>Query layer\<close>

subsection \<open>Rows and helpers shared by the two clients\<close>

text \<open>
  A stored node has the columns of the \<open>nodes\<close> table, which are also the properties of a
  Neo4j node; text and numeric columns hold values of the types of the \<open>GraphNode\<close> fields
  they are loaded from. The type of the id is a parameter: in the SQLite table the primary
  key \<open>id\<close> is a \<open>string option\<close>, \<open>None\<close> being NULL (a node object without an \<open>id\<close>
  key is stored so); the nodes of the Neo4j store are taken with their ids. The column
  \<open>audience_relevance_json\<close> is NULL, a text that \<open>json.loads\<close> rejects, or the encoding of
  a dict of scores. The column \<open>created_at\<close> is never read and is left out.
\<close>

datatype relevance_column = SqlNull | Unparsable | Relevance "(string \<times> real) list"

record 'i node_row =
  r_id :: 'i
  r_type :: string
  r_content :: string
  r_value :: json
  r_timestamp :: string
  r_confidence :: real
  r_source :: string
  r_tags :: "string list"
  r_audience_relevance_json :: relevance_column
  r_embedding_json :: "real list"

text \<open>
  \<open>to_lower\<close> lowers ASCII letters. \<open>contains s q\<close> is the substring test of Cypher's
  \<open>CONTAINS\<close>; \<open>like pattern s\<close> is SQLite's \<open>LIKE\<close>: \<open>%\<close> matches any run of characters,
  \<open>_\<close> any one character, and letters match without regard to case.
\<close>

definition to_lower_char :: "char \<Rightarrow> char" where
  "to_lower_char c =
     (case map_of (zip ''ABCDEFGHIJKLMNOPQRSTUVWXYZ'' ''abcdefghijklmnopqrstuvwxyz'') c of
        None \<Rightarrow> c
      | Some l \<Rightarrow> l)"

definition to_lower :: "string \<Rightarrow> string" where
  "to_lower s = map to_lower_char s"

fun starts_with :: "string \<Rightarrow> string \<Rightarrow> bool" where
  "starts_with [] s = True"
| "starts_with (q # qs) [] = False"
| "starts_with (q # qs) (c # cs) = (q = c \<and> starts_with qs cs)"

fun contains :: "string \<Rightarrow> string \<Rightarrow> bool" where
  "contains [] q = (q = [])"
| "contains (c # cs) q = (starts_with q (c # cs) \<or> contains cs q)"

fun like :: "string \<Rightarrow> string \<Rightarrow> bool" where
  "like [] s = (s = [])"
| "like (p # ps) [] = (p = CHR ''%'' \<and> like ps [])"
| "like (p # ps) (c # cs) =
     (if p = CHR ''%'' then like ps (c # cs) \<or> like (p # ps) cs
      else (p = CHR ''_'' \<or> to_lower_char p = to_lower_char c) \<and> like ps cs)"

text \<open>
  \<open>sort_desc\<close> orders by a key, largest first, and keeps rows with equal keys in their
  given order, as Python's \<open>sort(reverse=True)\<close> does; \<open>ORDER BY ... DESC\<close> is modelled by
  it too, the order among equal keys being one the database may choose. \<open>sql_limit\<close> is
  SQLite's \<open>LIMIT\<close> (a negative limit means no limit), \<open>py_slice_to\<close> is the slice
  \<open>xs[:limit]\<close> (a negative limit drops that many elements from the end), \<open>cypher_limit\<close>
  below is Cypher's \<open>LIMIT\<close> (a negative limit is an error). An argument is given when
  it is a non-empty list.
\<close>

definition sort_desc :: "('a \<Rightarrow> 'k::linorder) \<Rightarrow> 'a list \<Rightarrow> 'a list" where
  "sort_desc key xs = rev (sort_key key (rev xs))"

definition sql_limit :: "int \<Rightarrow> 'a list \<Rightarrow> 'a list" where
  "sql_limit limit rows = (if limit < 0 then rows else take (nat limit) rows)"

definition py_slice_to :: "int \<Rightarrow> 'a list \<Rightarrow> 'a list" where
  "py_slice_to limit xs =
     (if limit < 0 then take (length xs - nat (- limit)) xs else take (nat limit) xs)"




fun in_if_given :: "string list option \<Rightarrow> string \<Rightarrow> bool" where
  "in_if_given None x = True"
| "in_if_given (Some xs) x = (xs = [] \<or> x \<in> set xs)"

subsection \<open>The SQLite client\<close>

text \<open>
  The database holds the two tables in rowid order and the counter of the AUTOINCREMENT
  key of \<open>edges\<close>. A nodes file is the list of its node objects, an edges file the list of
  its edge objects. A node object is read with \<open>node.get(key)\<close>, so its \<open>id\<close> may be
  missing: \<open>o_id\<close> is \<open>node.get('id')\<close>, and \<open>None\<close> is bound as NULL. \<open>object_of_node\<close> is
  the object that \<open>save_graph\<close> writes for a node. \<open>INSERT OR REPLACE\<close> deletes the row with
  the same primary key and appends the new row; a NULL key equals no key, so a row with
  a NULL id replaces nothing and is never replaced. Binding a parameter fails, and the
  loop skips the node, when the value is a list, a dict or an integer outside 64 bits.
  Foreign keys are not enforced. In \<open>source_id IN (...)\<close> a NULL among the ids matches no
  edge. Query results are returned as full rows; the source selects some of their columns.
  \<open>filtered_nodes\<close> is the nodes query of \<open>get_filtered_graph\<close>, \<open>simple_relevant_nodes\<close> the
  scored, sorted and truncated node list of \<open>get_audience_focused_graph\<close>.
\<close>

record node_object =
  o_id :: "string option"
  o_type :: string
  o_content :: string
  o_value :: json
  o_timestamp :: string
  o_confidence :: real
  o_source :: string
  o_tags :: "string list"
  o_audience_relevance :: "(string \<times> real) list"
  o_embedding :: "real list"

definition object_of_node :: "GraphNode \<Rightarrow> node_object" where
  "object_of_node node =
     \<lparr>o_id = Some (n_id node), o_type = n_type node, o_content = n_content node,
      o_value = n_value node, o_timestamp = n_timestamp node,
      o_confidence = n_confidence node, o_source = n_source node, o_tags = n_tags node,
      o_audience_relevance = n_audience_relevance node, o_embedding = n_embedding node\<rparr>"

record simple_db =
  nodes_table :: "string option node_row list"
  edges_table :: "(nat \<times> GraphEdge) list"
  edge_sequence :: nat

definition create_tables :: simple_db where
  "create_tables = \<lparr>nodes_table = [], edges_table = [], edge_sequence = 0\<rparr>"

definition clear_database :: "simple_db \<Rightarrow> simple_db" where
  "clear_database db = db\<lparr>nodes_table := [], edges_table := []\<rparr>"

fun bindable :: "json \<Rightarrow> bool" where
  "bindable (JArr xs) = False"
| "bindable (JObj kvs) = False"
| "bindable (JInt i) = (- (2 ^ 63) \<le> i \<and> i < 2 ^ 63)"
| "bindable v = True"

definition node_to_row :: "node_object \<Rightarrow> string option node_row" where
  "node_to_row node =
     \<lparr>r_id = o_id node, r_type = o_type node, r_content = o_content node,
      r_value = o_value node, r_timestamp = o_timestamp node,
      r_confidence = o_confidence node, r_source = o_source node, r_tags = o_tags node,
      r_audience_relevance_json = Relevance (o_audience_relevance node),
      r_embedding_json = o_embedding node\<rparr>"

definition insert_or_replace ::
  "string option node_row \<Rightarrow> string option node_row list \<Rightarrow> string option node_row list" where
  "insert_or_replace row table =
     (case r_id row of
        None \<Rightarrow> table @ [row]
      | Some k \<Rightarrow> filter (\<lambda>r. r_id r \<noteq> Some k) table @ [row])"

fun load_nodes_loop ::
  "node_object list \<Rightarrow> string option node_row list \<Rightarrow> int
   \<Rightarrow> string option node_row list \<times> int" where
  "load_nodes_loop [] table loaded_count = (table, loaded_count)"
| "load_nodes_loop (node # nodes) table loaded_count =
     (if bindable (o_value node)
      then load_nodes_loop nodes (insert_or_replace (node_to_row node) table) (loaded_count + 1)
      else load_nodes_loop nodes table loaded_count)"

definition load_nodes_from_json :: "node_object list \<Rightarrow> simple_db \<Rightarrow> int \<times> simple_db" where
  "load_nodes_from_json nodes db =
     (let (table, loaded_count) = load_nodes_loop nodes (nodes_table db) 0
      in (loaded_count, db\<lparr>nodes_table := table\<rparr>))"

definition insert_edge :: "GraphEdge \<Rightarrow> simple_db \<Rightarrow> simple_db" where
  "insert_edge edge db =
     db\<lparr>edges_table := edges_table db @ [(edge_sequence db + 1, edge)],
        edge_sequence := edge_sequence db + 1\<rparr>"

fun load_edges_loop :: "GraphEdge list \<Rightarrow> simple_db \<Rightarrow> int \<Rightarrow> int \<times> simple_db" where
  "load_edges_loop [] db loaded_count = (loaded_count, db)"
| "load_edges_loop (edge # edges) db loaded_count =
     load_edges_loop edges (insert_edge edge db) (loaded_count + 1)"

definition load_edges_from_json :: "GraphEdge list \<Rightarrow> simple_db \<Rightarrow> int \<times> simple_db" where
  "load_edges_from_json edges db = load_edges_loop edges db 0"

definition search_nodes :: "string \<Rightarrow> int \<Rightarrow> simple_db \<Rightarrow> string option node_row list" where
  "search_nodes query limit db =
     (let pattern = ''%'' @ query @ ''%''
      in sql_limit limit (sort_desc r_confidence
           (filter (\<lambda>r. like pattern (r_content r) \<or> like pattern (r_source r))
              (nodes_table db))))"

definition edges_between :: "string list \<Rightarrow> real \<Rightarrow> GraphEdge list \<Rightarrow> GraphEdge list" where
  "edges_between node_ids min_weight edges =
     (if node_ids \<noteq> []
      then sort_desc e_weight
             (filter (\<lambda>e. e_source_id e \<in> set node_ids \<and> e_target_id e \<in> set node_ids \<and>
                           e_weight e \<ge> min_weight) edges)
      else [])"

definition sql_edges_between ::
  "string option list \<Rightarrow> real \<Rightarrow> GraphEdge list \<Rightarrow> GraphEdge list" where
  "sql_edges_between node_ids min_weight edges =
     (if node_ids \<noteq> []
      then sort_desc e_weight
             (filter (\<lambda>e. Some (e_source_id e) \<in> set node_ids \<and>
                           Some (e_target_id e) \<in> set node_ids \<and>
                           e_weight e \<ge> min_weight) edges)
      else [])"

record 'i filtered_graph =
  fg_nodes :: "'i node_row list"
  fg_edges :: "GraphEdge list"
  fg_total_nodes :: int
  fg_total_edges :: int

definition filtered_nodes ::
  "string list option \<Rightarrow> string list option \<Rightarrow> real \<Rightarrow> int \<Rightarrow> simple_db
   \<Rightarrow> string option node_row list" where
  "filtered_nodes node_types sources min_confidence limit db =
     sql_limit limit (sort_desc r_confidence
       (filter (\<lambda>r. r_confidence r \<ge> min_confidence \<and>
                     in_if_given node_types (r_type r) \<and>
                     in_if_given sources (r_source r))
          (nodes_table db)))"

definition get_filtered_graph ::
  "string list option \<Rightarrow> string list option \<Rightarrow> real \<Rightarrow> real \<Rightarrow> string list option \<Rightarrow> int
   \<Rightarrow> simple_db \<Rightarrow> string option filtered_graph" where
  "get_filtered_graph node_types sources min_confidence min_weight tags limit db =
     (let nodes = filtered_nodes node_types sources min_confidence limit db;
          node_ids = map r_id nodes;
          edges = sql_edges_between node_ids min_weight (map snd (edges_table db))
      in \<lparr>fg_nodes = nodes, fg_edges = edges,
          fg_total_nodes = int (length nodes), fg_total_edges = int (length edges)\<rparr>)"

record 'i audience_node =
  an_row :: "'i node_row"
  relevance_score :: real
  is_expansion :: bool

record 'i audience_graph =
  ag_audience :: string
  ag_nodes :: "'i audience_node list"
  ag_edges :: "GraphEdge list"
  ag_total_nodes :: int
  ag_total_edges :: int
  ag_focus_metadata :: "(int \<times> int \<times> int) option"

definition simple_relevant ::
  "string \<Rightarrow> string option node_row \<Rightarrow> string option audience_node option" where
  "simple_relevant audience node =
     (case r_audience_relevance_json node of
        Relevance audience_data \<Rightarrow>
          if relevance_get audience_data audience > 0.0
          then Some \<lparr>an_row = node, relevance_score = relevance_get audience_data audience,
                      is_expansion = False\<rparr>
          else None
      | _ \<Rightarrow> None)"

definition simple_relevant_nodes ::
  "string \<Rightarrow> int \<Rightarrow> simple_db \<Rightarrow> string option audience_node list" where
  "simple_relevant_nodes audience limit db =
     (let all_nodes = sort_desc r_confidence
            (filter (\<lambda>r. r_audience_relevance_json r \<noteq> SqlNull) (nodes_table db));
          relevant = List.map_filter (simple_relevant audience) all_nodes
      in py_slice_to limit (sort_desc relevance_score relevant))"

definition get_audience_focused_graph ::
  "string \<Rightarrow> int \<Rightarrow> simple_db \<Rightarrow> string option audience_graph" where
  "get_audience_focused_graph audience limit db =
     (let relevant_nodes = simple_relevant_nodes audience limit db;
          edges = sql_edges_between (map (\<lambda>n. r_id (an_row n)) relevant_nodes) 0.3
                    (map snd (edges_table db))
      in \<lparr>ag_audience = audience, ag_nodes = relevant_nodes, ag_edges = edges,
          ag_total_nodes = int (length relevant_nodes), ag_total_edges = int (length edges),
          ag_focus_metadata = None\<rparr>)"

subsection \<open>The Neo4j client\<close>

text \<open>
  The graph database holds node entities and relationships between them; every node
  carries the label \<open>Node\<close>. An undirected pattern matches a relationship once in each
  direction (once for a loop). The optional tag filter of \<open>get_filtered_graph\<close>,
  \<open>any(tag IN n.tags WHERE tag IN $tags)\<close>, is \<open>any_tag_in\<close>; \<open>neo_filtered_nodes\<close> is its
  nodes query, \<open>neo_audience_nodes\<close> and \<open>neo_focused_nodes\<close> are the scored and the truncated
  node lists of \<open>get_audience_focused_graph\<close>. The \<open>focus_metadata\<close> of an audience graph is
  kept as its three counts: relevant nodes, focused nodes, expansion nodes.
\<close>

record neo_node =
  nn_element :: nat
  nn_row :: "string node_row"

record neo_rel =
  rel_start :: neo_node
  rel_end :: neo_node
  rel_relationship_type :: string
  rel_weight :: real
  rel_confidence :: real
  rel_semantic_similarity :: real
  rel_metadata_json :: json

record neo_db =
  neo_nodes :: "neo_node list"
  neo_rels :: "neo_rel list"

datatype cypher_error = InvalidLimit

definition cypher_limit :: "int \<Rightarrow> 'a list \<Rightarrow> cypher_error + 'a list" where
  "cypher_limit limit rows = (if limit < 0 then Inl InvalidLimit else Inr (take (nat limit) rows))"

definition rel_edge :: "neo_node \<Rightarrow> neo_node \<Rightarrow> neo_rel \<Rightarrow> GraphEdge" where
  "rel_edge source target r =
     \<lparr>e_source_id = r_id (nn_row source), e_target_id = r_id (nn_row target),
      e_relationship_type = rel_relationship_type r, e_weight = rel_weight r,
      e_confidence = rel_confidence r, e_semantic_similarity = rel_semantic_similarity r,
      e_metadata = rel_metadata_json r\<rparr>"

definition neo_search_nodes :: "string \<Rightarrow> int \<Rightarrow> neo_db \<Rightarrow> cypher_error + string node_row list" where
  "neo_search_nodes query limit db =
     cypher_limit limit (sort_desc r_confidence
       (filter (\<lambda>n. contains (to_lower (r_content n)) (to_lower query) \<or>
                     contains (to_lower (r_source n)) (to_lower query) \<or>
                     list_ex (\<lambda>tag. contains (to_lower tag) (to_lower query)) (r_tags n))
          (map nn_row (neo_nodes db))))"

fun any_tag_in :: "string list option \<Rightarrow> string list \<Rightarrow> bool" where
  "any_tag_in None node_tags = True"
| "any_tag_in (Some ts) node_tags = (ts = [] \<or> list_ex (\<lambda>tag. tag \<in> set ts) node_tags)"

definition neo_filtered_nodes ::
  "string list option \<Rightarrow> string list option \<Rightarrow> real \<Rightarrow> string list option \<Rightarrow> int
   \<Rightarrow> neo_db \<Rightarrow> cypher_error + string node_row list" where
  "neo_filtered_nodes node_types sources min_confidence tags limit db =
     cypher_limit limit (sort_desc r_confidence
       (filter (\<lambda>n. r_confidence n \<ge> min_confidence \<and>
                     in_if_given node_types (r_type n) \<and>
                     in_if_given sources (r_source n) \<and>
                     any_tag_in tags (r_tags n))
          (map nn_row (neo_nodes db))))"

definition neo_get_filtered_graph ::
  "string list option \<Rightarrow> string list option \<Rightarrow> real \<Rightarrow> real \<Rightarrow> string list option \<Rightarrow> int
   \<Rightarrow> neo_db \<Rightarrow> cypher_error + string filtered_graph" where
  "neo_get_filtered_graph node_types sources min_confidence min_weight tags limit db =
     (case neo_filtered_nodes node_types sources min_confidence tags limit db of
        Inl err \<Rightarrow> Inl err
      | Inr nodes \<Rightarrow>
          (let node_ids = map r_id nodes;
               edges = edges_between node_ids min_weight
                         (map (\<lambda>r. rel_edge (rel_start r) (rel_end r) r) (neo_rels db))
           in Inr \<lparr>fg_nodes = nodes, fg_edges = edges,
                   fg_total_nodes = int (length nodes), fg_total_edges = int (length edges)\<rparr>))"

definition neo_relevant ::
  "string \<Rightarrow> string node_row \<Rightarrow> string audience_node option" where
  "neo_relevant audience node =
     (case r_audience_relevance_json node of
        Relevance audience_data \<Rightarrow>
          (let relevance_score = relevance_get audience_data audience
           in if relevance_score > 0.1
              then Some \<lparr>an_row = node,
                          relevance_score = (if r_type node = ''insight''
                                             then relevance_score * 1.2 else relevance_score),
                          is_expansion = False\<rparr>
              else None)
      | _ \<Rightarrow> None)"

definition expansion_matches :: "string list \<Rightarrow> neo_rel list \<Rightarrow> (neo_node \<times> real) list" where
  "expansion_matches focused_ids rels =
     concat (map (\<lambda>r.
        (if r_id (nn_row (rel_start r)) \<in> set focused_ids \<and>
            r_id (nn_row (rel_end r)) \<notin> set focused_ids \<and> rel_weight r \<ge> 0.4
         then [(rel_end r, rel_weight r)] else []) @
        (if r_id (nn_row (rel_end r)) \<in> set focused_ids \<and>
            r_id (nn_row (rel_start r)) \<notin> set focused_ids \<and> rel_weight r \<ge> 0.4
         then [(rel_start r, rel_weight r)] else [])) rels)"

definition expansion_groups :: "(neo_node \<times> real) list \<Rightarrow> (neo_node \<times> nat \<times> real) list" where
  "expansion_groups matches =
     map (\<lambda>connected.
            (let ws = map snd (filter (\<lambda>m. fst m = connected) matches)
             in (connected, length ws, sum_list ws / real (length ws))))
         (remdups (map fst matches))"

definition expansion_nodes :: "string list \<Rightarrow> neo_rel list \<Rightarrow> string audience_node list" where
  "expansion_nodes focused_ids rels =
     map (\<lambda>g. \<lparr>an_row = nn_row (fst g), relevance_score = 0.3, is_expansion = True\<rparr>)
       (take 10 (sort_desc snd (expansion_groups (expansion_matches focused_ids rels))))"

definition undirected_edges :: "string list \<Rightarrow> neo_rel list \<Rightarrow> GraphEdge list" where
  "undirected_edges node_ids rels =
     take 100 (sort_desc e_weight
       (filter (\<lambda>e. e_source_id e \<in> set node_ids \<and> e_target_id e \<in> set node_ids \<and>
                     e_weight e \<ge> 0.35)
          (concat (map (\<lambda>r.
             if nn_element (rel_start r) = nn_element (rel_end r)
             then [rel_edge (rel_start r) (rel_end r) r]
             else [rel_edge (rel_start r) (rel_end r) r, rel_edge (rel_end r) (rel_start r) r])
             rels))))"

definition neo_audience_nodes :: "string \<Rightarrow> neo_db \<Rightarrow> string audience_node list" where
  "neo_audience_nodes audience db =
     (let all_nodes = sort_desc r_confidence
            (filter (\<lambda>r. r_audience_relevance_json r \<noteq> SqlNull) (map nn_row (neo_nodes db)))
      in List.map_filter (neo_relevant audience) all_nodes)"

definition neo_focused_nodes ::
  "string \<Rightarrow> int \<Rightarrow> neo_db \<Rightarrow> string audience_node list" where
  "neo_focused_nodes audience limit db =
     py_slice_to limit
       (sort_desc (\<lambda>x. (relevance_score x, r_confidence (an_row x))) (neo_audience_nodes audience db))"

definition neo_get_audience_focused_graph ::
  "string \<Rightarrow> int \<Rightarrow> neo_db \<Rightarrow> string audience_graph" where
  "neo_get_audience_focused_graph audience limit db =
     (let audience_nodes = neo_audience_nodes audience db
      in if audience_nodes = []
         then \<lparr>ag_audience = audience, ag_nodes = [], ag_edges = [], ag_total_nodes = 0,
               ag_total_edges = 0, ag_focus_metadata = None\<rparr>
         else
           (let focused = neo_focused_nodes audience limit db;
                focused_node_ids = map (\<lambda>n. r_id (an_row n)) focused;
                focused_nodes = focused @ expansion_nodes focused_node_ids (neo_rels db);
                all_node_ids = map (\<lambda>n. r_id (an_row n)) focused_nodes;
                edges = undirected_edges all_node_ids (neo_rels db)
            in \<lparr>ag_audience = audience, ag_nodes = focused_nodes, ag_edges = edges,
                ag_total_nodes = int (length focused_nodes),
                ag_total_edges = int (length edges),
                ag_focus_metadata = Some
                  (int (length audience_nodes),
                   int (length (filter (\<lambda>n. \<not> is_expansion n) focused_nodes)),
                   int (length (filter is_expansion focused_nodes)))\<rparr>))"


subsection \<open>Auxiliary notions for the clients\<close>

text \<open>
  The node objects of a file that the node loader stores, those among them without an
  id, and those with the id \<open>k\<close>, each in the order of the file.
\<close>

definition stored_objects :: "node_object list \<Rightarrow> node_object list" where
  "stored_objects nodes = filter (\<lambda>n. bindable (o_value n)) nodes"

definition unkeyed_objects :: "node_object list \<Rightarrow> node_object list" where
  "unkeyed_objects nodes = filter (\<lambda>n. o_id n = None) (stored_objects nodes)"

definition objects_with_id :: "string \<Rightarrow> node_object list \<Rightarrow> node_object list" where
  "objects_with_id k nodes = filter (\<lambda>n. o_id n = Some k) (stored_objects nodes)"

definition loaded_ids :: "node_object list \<Rightarrow> string option set" where
  "loaded_ids nodes = {Some k |k. objects_with_id k nodes \<noteq> []}"

subsection \<open>Sample stores\<close>

text \<open>
  Two stored nodes, one edge between them, and the same content in each of the two
  stores: \<open>row0\<close> and \<open>row1\<close> are the nodes of the Neo4j store, \<open>srow0\<close> and \<open>srow1\<close> the rows
  of the SQLite table; \<open>focus0\<close> and \<open>sfocus0\<close> are the first node as an audience query
  returns it. \<open>no_id_object\<close> is a node object without an \<open>id\<close> key.
\<close>

definition row0_with :: "'i \<Rightarrow> 'i node_row" where
  "row0_with i = \<lparr>r_id = i, r_type = ''insight'', r_content = ''Signups up'', r_value = JNum 1,
      r_timestamp = ''2025-01-01'', r_confidence = 0.9, r_source = ''dau'',
      r_tags = [''growth''], r_audience_relevance_json = Relevance [(''investors'', 0.4)],
      r_embedding_json = [1, 0]\<rparr>"

definition row1_with :: "'i \<Rightarrow> 'i node_row" where
  "row1_with i = \<lparr>r_id = i, r_type = ''metric'', r_content = ''Q3'', r_value = JNum 1,
      r_timestamp = ''2025-01-01'', r_confidence = 0.8, r_source = ''kpi'',
      r_tags = [''revenue''], r_audience_relevance_json = Relevance [(''investors'', 0.05)],
      r_embedding_json = [0, 1]\<rparr>"

definition row0 :: "string node_row" where
  "row0 = row0_with ''n0''"

definition row1 :: "string node_row" where
  "row1 = row1_with ''n1''"

definition srow0 :: "string option node_row" where
  "srow0 = row0_with (Some ''n0'')"

definition srow1 :: "string option node_row" where
  "srow1 = row1_with (Some ''n1'')"

definition demo_edge :: GraphEdge where
  "demo_edge = \<lparr>e_source_id = ''n0'', e_target_id = ''n1'', e_relationship_type = ''relevance'',
     e_weight = 0.5, e_confidence = 0.7, e_semantic_similarity = 0.5, e_metadata = JObj []\<rparr>"

definition demo_db :: simple_db where
  "demo_db = \<lparr>nodes_table = [srow0, srow1], edges_table = [(1, demo_edge)], edge_sequence = 1\<rparr>"

definition nn0 :: neo_node where
  "nn0 = \<lparr>nn_element = 0, nn_row = row0\<rparr>"

definition nn1 :: neo_node where
  "nn1 = \<lparr>nn_element = 1, nn_row = row1\<rparr>"

definition demo_rel :: neo_rel where
  "demo_rel = \<lparr>rel_start = nn0, rel_end = nn1,
                   rel_relationship_type = ''relevance'', rel_weight = 0.5,
                   rel_confidence = 0.7, rel_semantic_similarity = 0.5,
                   rel_metadata_json = JObj []\<rparr>"

definition demo_neo_db :: neo_db where
  "demo_neo_db = \<lparr>neo_nodes = [nn0, nn1], neo_rels = [demo_rel]\<rparr>"

definition focus0 :: "real \<Rightarrow> string audience_node" where
  "focus0 score = \<lparr>an_row = row0, relevance_score = score, is_expansion = False\<rparr>"

definition sfocus0 :: "real \<Rightarrow> string option audience_node" where
  "sfocus0 score = \<lparr>an_row = srow0, relevance_score = score, is_expansion = False\<rparr>"

definition no_id_object :: node_object where
  "no_id_object = (object_of_node (demo_node ''n0'' ''metric'' [''revenue'']))\<lparr>o_id := None\<rparr>"

definition demo_object :: "string \<Rightarrow> real \<Rightarrow> node_object" where
  "demo_object i confidence =
     (object_of_node (demo_node i ''metric'' [''revenue'']))\<lparr>o_confidence := confidence\<rparr>"

section \<open>Properties of the graph builder\<close>

subsection \<open>The loops\<close>

lemma pair_loop_set:
  "set (pair_loop cosine set_list th a ns) =
     {e. \<exists>j < length ns. classify_pair cosine set_list th a (ns ! j) = Some e}"
proof (induction ns)
  case Nil
  show ?case by simp
next
  case (Cons b ns)
  have *: "{e. \<exists>j < length (b # ns). classify_pair cosine set_list th a ((b # ns) ! j) = Some e}
      = {e. classify_pair cosine set_list th a b = Some e} \<union>
        {e. \<exists>j < length ns. classify_pair cosine set_list th a (ns ! j) = Some e}"
    by (auto simp: less_Suc_eq_0_disj)
  show ?case unfolding * using Cons.IH by (auto split: option.splits)
qed

lemma edge_loop_set:
  "set (edge_loop cosine set_list th ns) =
     {e. \<exists>i j. i < j \<and> j < length ns \<and>
            classify_pair cosine set_list th (ns ! i) (ns ! j) = Some e}"
proof (induction ns)
  case Nil
  show ?case by simp
next
  case (Cons a ns)
  have "{e. \<exists>i j. i < j \<and> j < length (a # ns) \<and>
              classify_pair cosine set_list th ((a # ns) ! i) ((a # ns) ! j) = Some e}
     = {e. \<exists>j < length ns. classify_pair cosine set_list th a (ns ! j) = Some e} \<union>
       {e. \<exists>i j. i < j \<and> j < length ns \<and>
              classify_pair cosine set_list th (ns ! i) (ns ! j) = Some e}"
    (is "?L = ?A \<union> ?B")
  proof (intro set_eqI iffI)
    fix e assume "e \<in> ?L"
    then obtain i j where ij: "i < j" "j < length (a # ns)"
      "classify_pair cosine set_list th ((a # ns) ! i) ((a # ns) ! j) = Some e" by blast
    from ij(1) obtain j' where j': "j = Suc j'" by (cases j) auto
    show "e \<in> ?A \<union> ?B"
    proof (cases i)
      case 0
      with ij j' show ?thesis by auto
    next
      case (Suc i')
      with ij j' have "i' < j'" "j' < length ns"
        "classify_pair cosine set_list th (ns ! i') (ns ! j') = Some e" by auto
      then show ?thesis by blast
    qed
  next
    fix e assume "e \<in> ?A \<union> ?B"
    then show "e \<in> ?L"
    proof
      assume "e \<in> ?A"
      then obtain j where "j < length ns"
        "classify_pair cosine set_list th a (ns ! j) = Some e" by blast
      then have "0 < Suc j \<and> Suc j < length (a # ns) \<and>
        classify_pair cosine set_list th ((a # ns) ! 0) ((a # ns) ! Suc j) = Some e" by simp
      then show ?thesis by blast
    next
      assume "e \<in> ?B"
      then obtain i j where "i < j" "j < length ns"
        "classify_pair cosine set_list th (ns ! i) (ns ! j) = Some e" by blast
      then have "Suc i < Suc j \<and> Suc j < length (a # ns) \<and>
        classify_pair cosine set_list th ((a # ns) ! Suc i) ((a # ns) ! Suc j) = Some e" by simp
      then show ?thesis by blast
    qed
  qed
  then show ?case using Cons.IH by (simp add: pair_loop_set)
qed

lemma analyze_weight_le_1: "fst (snd (analyze_relationship a b s)) \<le> 1"
  by (simp add: analyze_relationship_def Let_def)

lemma classify_pair_Some:
  "classify_pair cosine set_list th a b = Some e \<Longrightarrow>
     e_source_id e = n_id a \<and> e_target_id e = n_id b \<and>
     0 < e_weight e \<and> e_weight e \<le> 1 \<and> th < e_semantic_similarity e"
  by (auto simp: classify_pair_def Let_def analyze_weight_le_1 split: if_splits)

text \<open>
  C1. The loop body emits an edge for a pair exactly when the similarity exceeds the
  threshold and the weight is positive; the edges of the whole loop are the edges of the
  pairs \<open>i < j\<close> of the node list. With threshold 0.3, similarity 0.29 gives no edge, and
  similarity 0.31 between two metric nodes without a shared tag gives a relevance edge of
  weight 0.31.
\<close>

theorem edge_emitted_iff:
  "(classify_pair cosine set_list th node1 node2 \<noteq> None \<longleftrightarrow>
      cosine (n_embedding node1) (n_embedding node2) > th \<and>
      fst (snd (analyze_relationship node1 node2
                  (cosine (n_embedding node1) (n_embedding node2)))) > 0) \<and>
   set (edge_loop cosine set_list th ns) =
     {e. \<exists>i j. i < j \<and> j < length ns \<and>
            classify_pair cosine set_list th (ns ! i) (ns ! j) = Some e} \<and>
   (cosine (n_embedding node1) (n_embedding node2) = 0.29 \<longrightarrow>
      classify_pair cosine set_list 0.3 node1 node2 = None) \<and>
   (cosine (n_embedding node1) (n_embedding node2) = 0.31 \<and>
    set (n_tags node1) \<inter> set (n_tags node2) = {} \<and>
    n_type node1 = ''metric'' \<and> n_type node2 = ''metric'' \<longrightarrow>
      (\<exists>e. classify_pair cosine set_list 0.3 node1 node2 = Some e \<and>
           e_relationship_type e = ''relevance'' \<and> e_weight e = 0.31))"
proof (intro conjI impI)
  show "classify_pair cosine set_list th node1 node2 \<noteq> None \<longleftrightarrow>
      cosine (n_embedding node1) (n_embedding node2) > th \<and>
      fst (snd (analyze_relationship node1 node2
                  (cosine (n_embedding node1) (n_embedding node2)))) > 0"
    by (simp add: classify_pair_def Let_def)
  show "set (edge_loop cosine set_list th ns) =
     {e. \<exists>i j. i < j \<and> j < length ns \<and>
            classify_pair cosine set_list th (ns ! i) (ns ! j) = Some e}"
    by (rule edge_loop_set)
next
  assume "cosine (n_embedding node1) (n_embedding node2) = 0.29"
  then show "classify_pair cosine set_list 0.3 node1 node2 = None"
    by (simp add: classify_pair_def Let_def)
next
  assume "cosine (n_embedding node1) (n_embedding node2) = 0.31 \<and>
    set (n_tags node1) \<inter> set (n_tags node2) = {} \<and>
    n_type node1 = ''metric'' \<and> n_type node2 = ''metric''"
  then show "\<exists>e. classify_pair cosine set_list 0.3 node1 node2 = Some e \<and>
           e_relationship_type e = ''relevance'' \<and> e_weight e = 0.31"
    by (simp add: classify_pair_def Let_def analyze_relationship_def is_causal_pair_def
        is_influence_pair_def tag_overlap_def)
qed

theorem edge_emitted_iff_witness:
  "classify_pair (\<lambda>_ _. 0.29) (\<lambda>_. []) 0.3
      (demo_node ''n0'' ''metric'' [''revenue'']) (demo_node ''n1'' ''metric'' [''churn'']) = None \<and>
   (\<exists>e. classify_pair (\<lambda>_ _. 0.31) (\<lambda>_. []) 0.3
      (demo_node ''n0'' ''metric'' [''revenue'']) (demo_node ''n1'' ''metric'' [''churn'']) = Some e \<and>
      e_relationship_type e = ''relevance'' \<and> e_weight e = 0.31)"
  using edge_emitted_iff [of "\<lambda>_ _. 0.29" "\<lambda>_. []" "0.3"
          "demo_node ''n0'' ''metric'' [''revenue'']" "demo_node ''n1'' ''metric'' [''churn'']" "[]"]
        edge_emitted_iff [of "\<lambda>_ _. 0.31" "\<lambda>_. []" "0.3"
          "demo_node ''n0'' ''metric'' [''revenue'']" "demo_node ''n1'' ''metric'' [''churn'']" "[]"]
  by (simp add: demo_node_def demo_point_def make_node_def)

subsection \<open>Edge invariants of a build\<close>

lemma nodes_ok_update:
  assumes ok: "nodes_ok nodes" and k: "n_id n = k"
  shows "nodes_ok (AList.update k n nodes)"
proof -
  have "set (AList.update k n nodes) \<subseteq> insert (k, n) (set nodes)"
    by (induction nodes) auto
  then have "\<forall>(k', n') \<in> set (AList.update k n nodes). n_id n' = k'"
    using ok k by (auto simp: nodes_ok_def)
  moreover have "distinct (map fst (AList.update k n nodes))"
    using ok by (simp add: nodes_ok_def distinct_update)
  ultimately show ?thesis by (simp add: nodes_ok_def)
qed

lemma nodes_ok_loop:
  "nodes_ok nodes \<Longrightarrow> nodes_ok (create_nodes_loop uuid4 encode relevance i points nodes)"
  by (induction points arbitrary: i nodes) (simp_all add: Let_def nodes_ok_update make_node_def)

lemma nodes_ok_distinct_ids:
  assumes ok: "nodes_ok nodes"
  shows "distinct (map n_id (map snd nodes))"
proof -
  from ok have "map (\<lambda>x. n_id (snd x)) nodes = map fst nodes"
    by (intro map_cong) (auto simp: nodes_ok_def)
  then have "map n_id (map snd nodes) = map fst nodes"
    by (simp add: comp_def)
  then have "distinct (map n_id (map snd nodes)) = distinct (map fst nodes)"
    by (simp only:)
  with ok show ?thesis by (simp only: nodes_ok_def)
qed

lemma pair_loop_edge:
  "e \<in> set (pair_loop cosine set_list th a ns) \<Longrightarrow>
     e_source_id e = n_id a \<and> e_target_id e \<in> n_id ` set ns \<and>
     0 < e_weight e \<and> e_weight e \<le> 1 \<and> th < e_semantic_similarity e"
proof (induction ns)
  case Nil
  then show ?case by simp
next
  case (Cons b ns)
  then show ?case by (auto split: option.splits dest: classify_pair_Some)
qed

lemma pair_loop_distinct:
  "distinct (map n_id ns) \<Longrightarrow> n_id a \<notin> n_id ` set ns \<Longrightarrow>
     distinct (map endpoints (pair_loop cosine set_list th a ns))"
proof (induction ns)
  case Nil
  then show ?case by simp
next
  case (Cons b ns)
  show ?case
  proof (cases "classify_pair cosine set_list th a b")
    case None
    with Cons show ?thesis by simp
  next
    case (Some e)
    have e: "endpoints e = {n_id a, n_id b}"
      using classify_pair_Some[OF Some] by (simp add: endpoints_def)
    have "endpoints e \<notin> endpoints ` set (pair_loop cosine set_list th a ns)"
    proof
      assume "endpoints e \<in> endpoints ` set (pair_loop cosine set_list th a ns)"
      then obtain e' where e': "e' \<in> set (pair_loop cosine set_list th a ns)"
        "endpoints e' = endpoints e" by auto
      from pair_loop_edge[OF e'(1)]
      have "endpoints e' = {n_id a, e_target_id e'}" "e_target_id e' \<in> n_id ` set ns"
        by (simp_all add: endpoints_def)
      with e'(2) e have "n_id b \<in> n_id ` set ns" by (auto simp: doubleton_eq_iff)
      with Cons.prems(1) show False by simp
    qed
    with Cons Some show ?thesis by simp
  qed
qed

lemma edge_loop_edge:
  "distinct (map n_id ns) \<Longrightarrow> e \<in> set (edge_loop cosine set_list th ns) \<Longrightarrow>
     e_source_id e \<in> n_id ` set ns \<and> e_target_id e \<in> n_id ` set ns \<and>
     e_source_id e \<noteq> e_target_id e \<and>
     0 < e_weight e \<and> e_weight e \<le> 1 \<and> th < e_semantic_similarity e"
proof (induction ns)
  case Nil
  then show ?case by simp
next
  case (Cons a ns)
  from Cons.prems(2) consider "e \<in> set (pair_loop cosine set_list th a ns)"
    | "e \<in> set (edge_loop cosine set_list th ns)" by auto
  then show ?case
  proof cases
    case 1
    from pair_loop_edge[OF 1] Cons.prems(1) show ?thesis by auto
  next
    case 2
    with Cons show ?thesis by auto
  qed
qed

lemma edge_loop_distinct:
  "distinct (map n_id ns) \<Longrightarrow> distinct (map endpoints (edge_loop cosine set_list th ns))"
proof (induction ns)
  case Nil
  then show ?case by simp
next
  case (Cons a ns)
  have d: "distinct (map n_id ns)" and a: "n_id a \<notin> n_id ` set ns"
    using Cons.prems by auto
  have "endpoints e1 \<noteq> endpoints e2"
    if "e1 \<in> set (pair_loop cosine set_list th a ns)"
       "e2 \<in> set (edge_loop cosine set_list th ns)" for e1 e2
  proof -
    from pair_loop_edge[OF that(1)] have "n_id a \<in> endpoints e1"
      by (simp add: endpoints_def)
    moreover from edge_loop_edge[OF d that(2)] a have "n_id a \<notin> endpoints e2"
      by (auto simp: endpoints_def)
    ultimately show ?thesis by auto
  qed
  then have "endpoints ` set (pair_loop cosine set_list th a ns) \<inter>
             endpoints ` set (edge_loop cosine set_list th ns) = {}"
    by blast
  with pair_loop_distinct[OF d a] Cons.IH[OF d] show ?case by simp
qed

lemma build_graph_edges:
  "b_edges (build_graph uuid4 encode relevance cosine set_list th points) =
     edge_loop cosine set_list th (map snd (create_nodes_loop uuid4 encode relevance 0 points []))"
  by (simp add: build_graph_def create_semantic_edges_def create_graph_nodes_def init_builder_def)

text \<open>
  C2. In the edge list of a build no two edges connect the same unordered pair of nodes,
  no edge connects a node to itself, every weight lies in (0, 1] and every similarity is
  above the threshold of the call.
\<close>

theorem build_graph_edge_invariants:
  "distinct (map endpoints
     (b_edges (build_graph uuid4 encode relevance cosine set_list th points))) \<and>
   (\<forall>e \<in> set (b_edges (build_graph uuid4 encode relevance cosine set_list th points)).
        e_source_id e \<noteq> e_target_id e \<and> 0 < e_weight e \<and> e_weight e \<le> 1 \<and>
        th < e_semantic_similarity e)"
proof -
  have "nodes_ok []" by (simp add: nodes_ok_def)
  then have "nodes_ok (create_nodes_loop uuid4 encode relevance 0 points [])"
    by (rule nodes_ok_loop)
  then have d: "distinct (map n_id (map snd (create_nodes_loop uuid4 encode relevance 0 points [])))"
    by (rule nodes_ok_distinct_ids)
  show ?thesis
    unfolding build_graph_edges using edge_loop_distinct[OF d] edge_loop_edge[OF d] by blast
qed

lemma demo_build_edges:
  "map (\<lambda>e. (e_source_id e, e_target_id e, e_relationship_type e))
     (b_edges (build_graph demo_uuid (\<lambda>_. [1, 0]) (\<lambda>_ _. []) (\<lambda>_ _. 0.31) (\<lambda>_. []) 0.3
        [demo_point ''metric'' [], demo_point ''metric'' []]))
   = [(''n0'', ''n1'', ''relevance'')]"
  by (simp add: build_graph_def create_graph_nodes_def create_semantic_edges_def init_builder_def
      demo_point_def demo_uuid_def make_node_def Let_def classify_pair_def analyze_relationship_def
      is_causal_pair_def is_influence_pair_def tag_overlap_def)

theorem build_graph_edge_invariants_witness:
  "\<exists>e. e \<in> set (b_edges (build_graph demo_uuid (\<lambda>_. [1, 0]) (\<lambda>_ _. []) (\<lambda>_ _. 0.31) (\<lambda>_. []) 0.3
             [demo_point ''metric'' [], demo_point ''metric'' []])) \<and>
        e_source_id e \<noteq> e_target_id e \<and> 0 < e_weight e \<and> e_weight e \<le> 1 \<and>
        0.3 < e_semantic_similarity e"
proof -
  define es where "es = b_edges (build_graph demo_uuid (\<lambda>_. [1, 0]) (\<lambda>_ _. []) (\<lambda>_ _. 0.31)
        (\<lambda>_. []) 0.3 [demo_point ''metric'' [], demo_point ''metric'' []])"
  have "es \<noteq> []"
    using demo_build_edges unfolding es_def by auto
  then have "hd es \<in> set es"
    by (rule hd_in_set)
  moreover have "\<forall>e \<in> set es. e_source_id e \<noteq> e_target_id e \<and> 0 < e_weight e \<and>
      e_weight e \<le> 1 \<and> 0.3 < e_semantic_similarity e"
    using build_graph_edge_invariants [of demo_uuid "\<lambda>_. [1, 0]" "\<lambda>_ _. []" "\<lambda>_ _. 0.31"
        "\<lambda>_. []" "0.3" "[demo_point ''metric'' [], demo_point ''metric'' []]"]
    unfolding es_def by (rule conjunct2)
  ultimately show ?thesis
    unfolding es_def by blast
qed

subsection \<open>The weight formula\<close>

lemma tag_overlap_nonneg: "0 \<le> tag_overlap a b"
  by (simp add: tag_overlap_def)

lemma spec_tag_overlap_eq: "spec_tag_overlap a b = tag_overlap a b"
  by (simp add: spec_tag_overlap_def tag_overlap_def max.commute max.left_commute)

lemma uncapped_weight:
  assumes t: "0 \<le> t"
  shows "min (s * (1 + t * 0.5)) 1 = min (min s 1 * (1 + t * 0.5)) (1::real)"
proof (cases "s \<le> 1")
  case True
  then show ?thesis by (simp add: min_def)
next
  case False
  then have s: "1 < s" by simp
  have "1 * 1 \<le> s * (1 + t * 0.5)"
  proof (rule mult_mono)
    show "1 \<le> s" using s by simp
    show "1 \<le> 1 + t * 0.5" using t by simp
    show "0 \<le> s" using s by simp
    show "(0::real) \<le> 1" by simp
  qed
  then have a: "1 \<le> s * (1 + t * 0.5)" by (simp only: mult_1)
  have l: "min (s * (1 + t * 0.5)) 1 = 1" using a by (simp only: min_absorb2)
  have "min s 1 = 1" using s by simp
  then have r: "min (min s 1 * (1 + t * 0.5)) 1 = 1" using t by simp
  show ?thesis using l r by simp
qed

lemma causal_cases: "is_causal_pair a b \<longleftrightarrow> {n_type a, n_type b} = {''insight'', ''metric''}"
  by (auto simp: is_causal_pair_def doubleton_eq_iff)

text \<open>
  C3. The weight returned by the relationship analysis is the formula of the
  specification: the similarity times the multiplier of the relationship type, capped at
  1, times one plus half the tag overlap, capped at 1.
\<close>

theorem analyze_relationship_weight:
  "fst (snd (analyze_relationship a b s)) = spec_final_weight a b s"
proof -
  have ex: "list_ex (\<lambda>tag. tag \<in> set (n_tags a) \<inter> set (n_tags b))
               [''growth'', ''improvement'', ''performance'']
      \<longleftrightarrow> set (n_tags a) \<inter> set (n_tags b) \<inter> {''growth'', ''improvement'', ''performance''} \<noteq> {}"
    by auto
  have ni: "is_causal_pair a b \<Longrightarrow> \<not> is_influence_pair a b"
    by (auto simp: is_causal_pair_def is_influence_pair_def)
  have inf: "is_influence_pair a b \<longleftrightarrow>
       (n_type a = ''event'' \<and> n_type b \<in> {''metric'', ''insight''}) \<or>
       (n_type b = ''event'' \<and> n_type a \<in> {''metric'', ''insight''})"
    by (simp add: is_influence_pair_def)
  define causal where "causal \<longleftrightarrow> is_causal_pair a b \<and>
      list_ex (\<lambda>tag. tag \<in> set (n_tags a) \<inter> set (n_tags b))
        [''growth'', ''improvement'', ''performance'']"
  have m: "spec_multiplier a b =
      (if causal then 1.3 else if is_influence_pair a b then 1.2 else 1.0)"
    unfolding spec_multiplier_def causal_def ex causal_cases inf by (rule refl)
  have w: "fst (snd (analyze_relationship a b s)) =
      min ((if causal then min (s * 1.3) 1
            else if is_influence_pair a b then min (s * 1.2) 1 else s)
            * (1 + tag_overlap a b * 0.5)) 1"
    using ni by (auto simp: analyze_relationship_def Let_def causal_def)
  show ?thesis
  proof (cases "causal \<or> is_influence_pair a b")
    case True
    then show ?thesis unfolding w spec_final_weight_def m spec_tag_overlap_eq by auto
  next
    case False
    then show ?thesis unfolding w spec_final_weight_def m spec_tag_overlap_eq
      using uncapped_weight[OF tag_overlap_nonneg, of s a b] by simp
  qed
qed

text \<open>
  C4. Similarity 1.0, tags \<open>["growth"]\<close> on both nodes, types insight and metric in either
  order: the pair is a causality with confidence 0.8 and weight 1.0.
\<close>

theorem causality_scenario:
  "analyze_relationship (a\<lparr>n_type := ''insight'', n_tags := [''growth'']\<rparr>)
     (b\<lparr>n_type := ''metric'', n_tags := [''growth'']\<rparr>) 1.0 = (''causality'', 1.0, 0.8) \<and>
   analyze_relationship (a\<lparr>n_type := ''metric'', n_tags := [''growth'']\<rparr>)
     (b\<lparr>n_type := ''insight'', n_tags := [''growth'']\<rparr>) 1.0 = (''causality'', 1.0, 0.8)"
  by (simp add: analyze_relationship_def is_causal_pair_def is_influence_pair_def tag_overlap_def)

subsection \<open>Persistence\<close>

text \<open>
  C5, as stated, fails: two runs of the persistence step at different clock readings
  write different nodes documents for the same builder.
\<close>

theorem save_graph_twice_counterexample:
  "nodes_json (save_graph demo_set_list ''2025-01-01T10:00:00.000001''
      ''2025-01-01T10:00:00.000350'' demo_builder) \<noteq>
   nodes_json (save_graph demo_set_list ''2025-01-01T10:00:07.000001''
      ''2025-01-01T10:00:07.000350'' demo_builder)"
  by (simp add: save_graph_def Let_def)

text \<open>
  Two runs that list the set of node types in different orders write different nodes
  documents, also at the same clock reading.
\<close>

lemma save_graph_set_order_differs:
  "nodes_json (save_graph types_order1 t1 t2 demo_builder2) \<noteq>
   nodes_json (save_graph types_order2 t1 t2 demo_builder2)"
  by (simp add: save_graph_def Let_def demo_builder2_def demo_node_def make_node_def
      demo_point_def types_order1_def types_order2_def)

lemma JStr_list_eq: "map JStr xs = map JStr ys \<longleftrightarrow> xs = ys"
  by (simp add: inj_map_eq_map inj_def)

text \<open>
  C5, amended. Two runs on the same builder, at any clock readings and with any orders
  of listing a set, write the same summary. Their nodes documents are equal exactly when
  the two runs read the same clock value for it and list the set of node types in the
  same order, and likewise the edges documents with the set of relationship types.
  Without the \<open>creation_timestamp\<close> and \<open>node_types\<close> entries of the metadata the two nodes
  documents are equal, and without the \<open>creation_timestamp\<close> and \<open>relationship_types\<close>
  entries the two edges documents are equal.
\<close>

theorem save_graph_twice:
  "summary_json (save_graph set_list t1 t2 b) = summary_json (save_graph set_list' t1' t2' b) \<and>
   (nodes_json (save_graph set_list t1 t2 b) = nodes_json (save_graph set_list' t1' t2' b)
      \<longleftrightarrow> t1 = t1' \<and>
          set_list (set (map n_type (map snd (b_nodes b)))) =
          set_list' (set (map n_type (map snd (b_nodes b))))) \<and>
   (edges_json (save_graph set_list t1 t2 b) = edges_json (save_graph set_list' t1' t2' b)
      \<longleftrightarrow> t2 = t2' \<and>
          set_list (set (map e_relationship_type (b_edges b))) =
          set_list' (set (map e_relationship_type (b_edges b)))) \<and>
   drop_metadata_entries [''node_types'', ''creation_timestamp'']
       (nodes_json (save_graph set_list t1 t2 b)) =
     drop_metadata_entries [''node_types'', ''creation_timestamp'']
       (nodes_json (save_graph set_list' t1' t2' b)) \<and>
   drop_metadata_entries [''relationship_types'', ''creation_timestamp'']
       (edges_json (save_graph set_list t1 t2 b)) =
     drop_metadata_entries [''relationship_types'', ''creation_timestamp'']
       (edges_json (save_graph set_list' t1' t2' b))"
  by (auto simp add: save_graph_def Let_def drop_metadata_entries_def JStr_list_eq image_image)

section \<open>Properties of the query layer\<close>

subsection \<open>Helpers\<close>

lemma set_sort_desc: "set (sort_desc key xs) = set xs"
  by (simp add: sort_desc_def)

lemma length_sort_desc: "length (sort_desc key xs) = length xs"
  by (simp add: sort_desc_def)

lemma set_sql_limit: "set (sql_limit limit xs) \<subseteq> set xs"
  by (auto simp: sql_limit_def dest: in_set_takeD)

lemma set_py_slice_to: "set (py_slice_to limit xs) \<subseteq> set xs"
  by (auto simp: py_slice_to_def dest: in_set_takeD)

lemma length_py_slice_to: "0 \<le> limit \<Longrightarrow> int (length (py_slice_to limit xs)) \<le> limit"
  by (simp add: py_slice_to_def)

lemma edges_between_edge:
  "e \<in> set (edges_between node_ids min_weight edges) \<Longrightarrow>
     e_source_id e \<in> set node_ids \<and> e_target_id e \<in> set node_ids \<and> min_weight \<le> e_weight e"
  by (auto simp: edges_between_def set_sort_desc split: if_splits)

lemma sql_edges_between_edge:
  "e \<in> set (sql_edges_between node_ids min_weight edges) \<Longrightarrow>
     Some (e_source_id e) \<in> set node_ids \<and> Some (e_target_id e) \<in> set node_ids \<and>
     min_weight \<le> e_weight e"
  by (auto simp: sql_edges_between_def set_sort_desc split: if_splits)


subsection \<open>Loading a file twice\<close>

lemma objects_with_id_Cons:
  "objects_with_id k (n # ns) =
     (if bindable (o_value n) \<and> o_id n = Some k then n # objects_with_id k ns
      else objects_with_id k ns)"
  by (simp add: objects_with_id_def stored_objects_def)

lemma unkeyed_objects_Cons:
  "unkeyed_objects (n # ns) =
     (if bindable (o_value n) \<and> o_id n = None then n # unkeyed_objects ns
      else unkeyed_objects ns)"
  by (simp add: unkeyed_objects_def stored_objects_def)

lemma insert_or_replace_keyed:
  "filter (\<lambda>r. r_id r = Some k) (insert_or_replace row table) =
     (if r_id row = Some k then [row] else filter (\<lambda>r. r_id r = Some k) table)"
proof (cases "r_id row")
  case None
  then show ?thesis by (simp add: insert_or_replace_def)
next
  case (Some k')
  have "filter (\<lambda>r. r_id r = Some k) (filter (\<lambda>r. r_id r \<noteq> Some k') table) =
      (if k' = k then [] else filter (\<lambda>r. r_id r = Some k) table)"
    by (induction table) auto
  with Some show ?thesis by (simp add: insert_or_replace_def)
qed

lemma insert_or_replace_unkeyed:
  "filter (\<lambda>r. r_id r = None) (insert_or_replace row table) =
     filter (\<lambda>r. r_id r = None) table @ (if r_id row = None then [row] else [])"
proof (cases "r_id row")
  case None
  then show ?thesis by (simp add: insert_or_replace_def)
next
  case (Some k')
  have "filter (\<lambda>r. r_id r = None) (filter (\<lambda>r. r_id r \<noteq> Some k') table) =
      filter (\<lambda>r. r_id r = None) table"
    by (induction table) auto
  with Some show ?thesis by (simp add: insert_or_replace_def)
qed

lemma row_id: "r_id (node_to_row n) = o_id n"
  by (simp add: node_to_row_def)

lemma load_keyed_rows:
  "filter (\<lambda>r. r_id r = Some k) (fst (load_nodes_loop nodes table c)) =
     (if objects_with_id k nodes = [] then filter (\<lambda>r. r_id r = Some k) table
      else [node_to_row (last (objects_with_id k nodes))])"
proof (induction nodes arbitrary: table c)
  case Nil
  show ?case by (simp add: objects_with_id_def stored_objects_def)
next
  case (Cons n ns)
  show ?case
  proof (cases "bindable (o_value n)")
    case False
    with Cons.IH[of table c] show ?thesis by (simp add: objects_with_id_Cons)
  next
    case True
    note IH = Cons.IH[of "insert_or_replace (node_to_row n) table" "c + 1"]
    show ?thesis
    proof (cases "objects_with_id k ns = []")
      case False
      with True IH show ?thesis by (simp add: objects_with_id_Cons)
    next
      case e: True
      with True IH show ?thesis
        by (simp add: objects_with_id_Cons insert_or_replace_keyed row_id)
    qed
  qed
qed

lemma load_unkeyed_rows:
  "filter (\<lambda>r. r_id r = None) (fst (load_nodes_loop nodes table c)) =
     filter (\<lambda>r. r_id r = None) table @ map node_to_row (unkeyed_objects nodes)"
proof (induction nodes arbitrary: table c)
  case Nil
  show ?case by (simp add: unkeyed_objects_def stored_objects_def)
next
  case (Cons n ns)
  show ?case
  proof (cases "bindable (o_value n)")
    case False
    with Cons.IH[of table c] show ?thesis by (simp add: unkeyed_objects_Cons)
  next
    case True
    with Cons.IH[of "insert_or_replace (node_to_row n) table" "c + 1"] show ?thesis
      by (simp add: unkeyed_objects_Cons insert_or_replace_unkeyed row_id)
  qed
qed

lemma loaded_ids_Cons:
  "loaded_ids (n # ns) =
     (if bindable (o_value n) then (case o_id n of None \<Rightarrow> {} | Some k \<Rightarrow> {Some k}) else {})
     \<union> loaded_ids ns"
  by (auto simp: loaded_ids_def objects_with_id_Cons split: option.splits if_splits)

lemma load_nodes_loop_split:
  "fst (load_nodes_loop nodes table c) =
     filter (\<lambda>r. r_id r \<notin> loaded_ids nodes) table @ fst (load_nodes_loop nodes [] 0)"
proof (induction nodes arbitrary: table c)
  case Nil
  show ?case by (simp add: loaded_ids_def objects_with_id_def stored_objects_def)
next
  case (Cons n ns)
  show ?case
  proof (cases "bindable (o_value n)")
    case False
    then have "loaded_ids (n # ns) = loaded_ids ns" by (simp add: loaded_ids_Cons)
    with False Cons.IH[of table c] show ?thesis by simp
  next
    case True
    have none: "None \<notin> loaded_ids ns" by (auto simp: loaded_ids_def)
    have "filter (\<lambda>r. r_id r \<notin> loaded_ids ns) (insert_or_replace (node_to_row n) table)
        = filter (\<lambda>r. r_id r \<notin> loaded_ids (n # ns)) table @
          filter (\<lambda>r. r_id r \<notin> loaded_ids ns) (insert_or_replace (node_to_row n) [])"
    proof (cases "o_id n")
      case None
      with True have "loaded_ids (n # ns) = loaded_ids ns" by (simp add: loaded_ids_Cons)
      with None show ?thesis by (simp add: insert_or_replace_def row_id)
    next
      case (Some k)
      with True have ids: "loaded_ids (n # ns) = insert (Some k) (loaded_ids ns)"
        by (simp add: loaded_ids_Cons)
      have "filter (\<lambda>r. r_id r \<notin> loaded_ids ns) (filter (\<lambda>r. r_id r \<noteq> Some k) table) =
          filter (\<lambda>r. r_id r \<notin> insert (Some k) (loaded_ids ns)) table"
        by (induction table) auto
      with Some ids show ?thesis by (simp add: insert_or_replace_def row_id)
    qed
    with True Cons.IH[of "insert_or_replace (node_to_row n) table" "c + 1"]
      Cons.IH[of "insert_or_replace (node_to_row n) []" "0 + 1"]
    show ?thesis by simp
  qed
qed

lemma fresh_rows_unkeyed:
  "filter (\<lambda>r. r_id r \<notin> loaded_ids nodes) (fst (load_nodes_loop nodes [] 0)) =
     map node_to_row (unkeyed_objects nodes)"
proof -
  have "r_id r \<notin> loaded_ids nodes \<longleftrightarrow> r_id r = None"
    if r: "r \<in> set (fst (load_nodes_loop nodes [] 0))" for r
  proof (cases "r_id r")
    case None
    then show ?thesis by (auto simp: loaded_ids_def)
  next
    case (Some k)
    with r have "filter (\<lambda>r. r_id r = Some k) (fst (load_nodes_loop nodes [] 0)) \<noteq> []"
      by (auto simp: filter_empty_conv)
    then have "objects_with_id k nodes \<noteq> []"
      by (auto simp: load_keyed_rows split: if_splits)
    with Some show ?thesis by (simp add: loaded_ids_def)
  qed
  then have "filter (\<lambda>r. r_id r \<notin> loaded_ids nodes) (fst (load_nodes_loop nodes [] 0)) =
      filter (\<lambda>r. r_id r = None) (fst (load_nodes_loop nodes [] 0))"
    by (intro filter_cong) auto
  then show ?thesis by (simp add: load_unkeyed_rows)
qed

lemma load_twice_length:
  "length (fst (load_nodes_loop nodes (fst (load_nodes_loop nodes table c)) c')) =
     length (fst (load_nodes_loop nodes table c)) + length (unkeyed_objects nodes)"
proof -
  have once: "fst (load_nodes_loop nodes table c) =
      filter (\<lambda>r. r_id r \<notin> loaded_ids nodes) table @ fst (load_nodes_loop nodes [] 0)"
    by (rule load_nodes_loop_split)
  have "fst (load_nodes_loop nodes (fst (load_nodes_loop nodes table c)) c') =
      filter (\<lambda>r. r_id r \<notin> loaded_ids nodes) (fst (load_nodes_loop nodes table c)) @
      fst (load_nodes_loop nodes [] 0)"
    by (rule load_nodes_loop_split)
  also have "filter (\<lambda>r. r_id r \<notin> loaded_ids nodes) (fst (load_nodes_loop nodes table c)) =
      filter (\<lambda>r. r_id r \<notin> loaded_ids nodes) table @ map node_to_row (unkeyed_objects nodes)"
    by (subst once) (simp add: fresh_rows_unkeyed)
  finally have "length (fst (load_nodes_loop nodes (fst (load_nodes_loop nodes table c)) c')) =
      length (filter (\<lambda>r. r_id r \<notin> loaded_ids nodes) table) + length (unkeyed_objects nodes) +
      length (fst (load_nodes_loop nodes [] 0))"
    by simp
  moreover have "length (fst (load_nodes_loop nodes table c)) =
      length (filter (\<lambda>r. r_id r \<notin> loaded_ids nodes) table) +
      length (fst (load_nodes_loop nodes [] 0))"
    by (subst once) simp
  ultimately show ?thesis by simp
qed

lemma nodes_table_load:
  "nodes_table (snd (load_nodes_from_json nodes db)) =
     fst (load_nodes_loop nodes (nodes_table db) 0)"
  by (simp add: load_nodes_from_json_def split: prod.splits)

lemma load_edges_loop_length:
  "length (edges_table (snd (load_edges_loop edges db c))) = length (edges_table db) + length edges"
  by (induction edges arbitrary: db c) (simp_all add: insert_edge_def)

lemma no_id_object_fields:
  "o_id no_id_object = None" "bindable (o_value no_id_object)"
  by (simp_all add: no_id_object_def object_of_node_def demo_node_def make_node_def demo_point_def)

lemma demo_object_fields:
  "o_id (demo_object i c) = Some i" "bindable (o_value (demo_object i c))"
  by (simp_all add: demo_object_def object_of_node_def demo_node_def make_node_def demo_point_def)

text \<open>
  C10, as stated, fails: a nodes file with a node object that has no \<open>id\<close> key stores one
  row at the first load and a second row at the second load.
\<close>

theorem load_twice_nodes_counterexample:
  "length (nodes_table (snd (load_nodes_from_json [no_id_object]
      (snd (load_nodes_from_json [no_id_object] create_tables))))) \<noteq>
   length (nodes_table (snd (load_nodes_from_json [no_id_object] create_tables)))"
  by (simp add: nodes_table_load no_id_object_fields insert_or_replace_def row_id
      create_tables_def)

text \<open>
  C10, amended. In the SQLite client a second load of the same nodes file adds one row for
  each stored node object without an id and no other row, so it leaves the number of
  stored nodes unchanged when every stored node object has an id; after a load the table
  holds, for each id of a stored node object of the file, exactly one row, that of the
  last such object (rows are replaced by id). A second load of the same edges file adds as
  many rows again as the file has edges, and two loads into an empty edges table store
  twice the rows of one.
\<close>

theorem load_twice_counts:
  "length (nodes_table (snd (load_nodes_from_json nodes
       (snd (load_nodes_from_json nodes db))))) =
     length (nodes_table (snd (load_nodes_from_json nodes db))) +
     length (unkeyed_objects nodes) \<and>
   (unkeyed_objects nodes = [] \<longrightarrow>
      length (nodes_table (snd (load_nodes_from_json nodes
         (snd (load_nodes_from_json nodes db))))) =
      length (nodes_table (snd (load_nodes_from_json nodes db)))) \<and>
   (objects_with_id k nodes \<noteq> [] \<longrightarrow>
      filter (\<lambda>r. r_id r = Some k) (nodes_table (snd (load_nodes_from_json nodes db))) =
        [node_to_row (last (objects_with_id k nodes))]) \<and>
   length (edges_table (snd (load_edges_from_json edges
       (snd (load_edges_from_json edges db))))) =
     length (edges_table (snd (load_edges_from_json edges db))) + length edges \<and>
   length (edges_table (snd (load_edges_from_json edges
       (snd (load_edges_from_json edges (clear_database db)))))) =
     2 * length (edges_table (snd (load_edges_from_json edges (clear_database db))))"
  by (simp add: nodes_table_load load_twice_length load_keyed_rows load_edges_from_json_def
      load_edges_loop_length clear_database_def)

theorem load_twice_counts_witness:
  "unkeyed_objects [demo_object ''n0'' 0.5, demo_object ''n0'' 0.9] = [] \<and>
   objects_with_id ''n0'' [demo_object ''n0'' 0.5, demo_object ''n0'' 0.9] \<noteq> [] \<and>
   length (nodes_table (snd (load_nodes_from_json [demo_object ''n0'' 0.5, demo_object ''n0'' 0.9]
       (snd (load_nodes_from_json [demo_object ''n0'' 0.5, demo_object ''n0'' 0.9] create_tables))))) =
     length (nodes_table (snd (load_nodes_from_json
       [demo_object ''n0'' 0.5, demo_object ''n0'' 0.9] create_tables))) \<and>
   filter (\<lambda>r. r_id r = Some ''n0'') (nodes_table (snd (load_nodes_from_json
       [demo_object ''n0'' 0.5, demo_object ''n0'' 0.9] create_tables))) =
     [node_to_row (demo_object ''n0'' 0.9)]"
proof -
  have u: "unkeyed_objects [demo_object ''n0'' 0.5, demo_object ''n0'' 0.9] = []"
    by (simp add: unkeyed_objects_Cons demo_object_fields unkeyed_objects_def stored_objects_def)
  have o: "objects_with_id ''n0'' [demo_object ''n0'' 0.5, demo_object ''n0'' 0.9] =
      [demo_object ''n0'' 0.5, demo_object ''n0'' 0.9]"
    by (simp add: objects_with_id_Cons demo_object_fields objects_with_id_def stored_objects_def)
  show ?thesis
    using load_twice_counts [of "[demo_object ''n0'' 0.5, demo_object ''n0'' 0.9]" create_tables
        "''n0''" "[]"] u o
    by simp
qed

subsection \<open>The sample stores evaluated\<close>

lemma row_with_fields:
  "r_id (row0_with i) = i" "r_type (row0_with i) = ''insight''"
  "r_content (row0_with i) = ''Signups up''" "r_confidence (row0_with i) = 0.9"
  "r_source (row0_with i) = ''dau''" "r_tags (row0_with i) = [''growth'']"
  "r_audience_relevance_json (row0_with i) = Relevance [(''investors'', 0.4)]"
  "r_id (row1_with i) = i" "r_type (row1_with i) = ''metric''"
  "r_content (row1_with i) = ''Q3''" "r_confidence (row1_with i) = 0.8"
  "r_source (row1_with i) = ''kpi''" "r_tags (row1_with i) = [''revenue'']"
  "r_audience_relevance_json (row1_with i) = Relevance [(''investors'', 0.05)]"
  by (simp_all add: row0_with_def row1_with_def)

lemma row0_fields:
  "r_id row0 = ''n0''" "r_type row0 = ''insight''" "r_content row0 = ''Signups up''"
  "r_confidence row0 = 0.9" "r_source row0 = ''dau''" "r_tags row0 = [''growth'']"
  "r_audience_relevance_json row0 = Relevance [(''investors'', 0.4)]"
  by (simp_all add: row0_def row_with_fields)

lemma row1_fields:
  "r_id row1 = ''n1''" "r_type row1 = ''metric''" "r_content row1 = ''Q3''"
  "r_confidence row1 = 0.8" "r_source row1 = ''kpi''" "r_tags row1 = [''revenue'']"
  "r_audience_relevance_json row1 = Relevance [(''investors'', 0.05)]"
  by (simp_all add: row1_def row_with_fields)

lemma srow0_fields:
  "r_id srow0 = Some ''n0''" "r_type srow0 = ''insight''" "r_content srow0 = ''Signups up''"
  "r_confidence srow0 = 0.9" "r_source srow0 = ''dau''" "r_tags srow0 = [''growth'']"
  "r_audience_relevance_json srow0 = Relevance [(''investors'', 0.4)]"
  by (simp_all add: srow0_def row_with_fields)

lemma srow1_fields:
  "r_id srow1 = Some ''n1''" "r_type srow1 = ''metric''" "r_content srow1 = ''Q3''"
  "r_confidence srow1 = 0.8" "r_source srow1 = ''kpi''" "r_tags srow1 = [''revenue'']"
  "r_audience_relevance_json srow1 = Relevance [(''investors'', 0.05)]"
  by (simp_all add: srow1_def row_with_fields)

lemma demo_edge_fields:
  "e_source_id demo_edge = ''n0''" "e_target_id demo_edge = ''n1''" "e_weight demo_edge = 0.5"
  by (simp_all add: demo_edge_def)

lemma demo_neo_fields:
  "nn_row nn0 = row0" "nn_row nn1 = row1" "nn_element nn0 = 0" "nn_element nn1 = 1"
  "rel_start demo_rel = nn0" "rel_end demo_rel = nn1" "rel_weight demo_rel = 0.5"
  "rel_edge nn0 nn1 demo_rel = demo_edge"
  by (simp_all add: nn0_def nn1_def demo_rel_def rel_edge_def row0_fields row1_fields demo_edge_def)

lemma demo_db_fields:
  "nodes_table demo_db = [srow0, srow1]" "edges_table demo_db = [(1, demo_edge)]"
  "neo_nodes demo_neo_db = [nn0, nn1]" "neo_rels demo_neo_db = [demo_rel]"
  by (simp_all add: demo_db_def demo_neo_db_def)

lemmas demo_fields =
  row0_fields row1_fields srow0_fields srow1_fields demo_edge_fields demo_neo_fields
  demo_db_fields

lemma lower_letters:
  "to_lower_char CHR ''S'' = CHR ''s''" "to_lower_char CHR ''i'' = CHR ''i''"
  "to_lower_char CHR ''g'' = CHR ''g''" "to_lower_char CHR ''n'' = CHR ''n''"
  "to_lower_char CHR ''u'' = CHR ''u''" "to_lower_char CHR ''p'' = CHR ''p''"
  "to_lower_char CHR ''s'' = CHR ''s''" "to_lower_char CHR '' '' = CHR '' ''"
  "to_lower_char CHR ''d'' = CHR ''d''" "to_lower_char CHR ''a'' = CHR ''a''"
  "to_lower_char CHR ''r'' = CHR ''r''" "to_lower_char CHR ''o'' = CHR ''o''"
  "to_lower_char CHR ''w'' = CHR ''w''" "to_lower_char CHR ''t'' = CHR ''t''"
  "to_lower_char CHR ''h'' = CHR ''h''" "to_lower_char CHR ''Q'' = CHR ''q''"
  "to_lower_char CHR ''3'' = CHR ''3''" "to_lower_char CHR ''k'' = CHR ''k''"
  "to_lower_char CHR ''e'' = CHR ''e''" "to_lower_char CHR ''v'' = CHR ''v''"
  by (simp_all add: to_lower_char_def)

lemma sort_rows:
  "sort_desc r_confidence [row0, row1] = [row0, row1]"
  "sort_desc r_confidence [srow0, srow1] = [srow0, srow1]"
  by (simp_all add: sort_desc_def demo_fields)

lemma demo_filtered_nodes:
  "filtered_nodes None None 0 100 demo_db = [srow0, srow1]"
  by (simp add: filtered_nodes_def sql_limit_def demo_fields sort_rows)

lemma demo_sql_edges_between:
  "sql_edges_between [Some ''n0'', Some ''n1''] 0.3 [demo_edge] = [demo_edge]"
  by (simp add: sql_edges_between_def sort_desc_def demo_fields)

lemma demo_edges_between:
  "edges_between [''n0'', ''n1''] 0.3 [demo_edge] = [demo_edge]"
  by (simp add: edges_between_def sort_desc_def demo_fields)

lemma f1:
  "fg_nodes (get_filtered_graph None None 0 0.3 (Some [''growth'']) 100 demo_db) = [srow0, srow1]"
  by (simp add: get_filtered_graph_def Let_def demo_filtered_nodes)

lemma f1e: "fg_edges (get_filtered_graph None None 0 0.3 None 100 demo_db) = [demo_edge]"
  by (simp add: get_filtered_graph_def Let_def demo_filtered_nodes demo_fields
      demo_sql_edges_between)

lemma demo_neo_filtered_nodes:
  "neo_filtered_nodes None None 0 None 100 demo_neo_db = Inr [row0, row1]"
  "neo_filtered_nodes None None 0 (Some [''growth'']) 100 demo_neo_db = Inr [row0]"
  by (simp_all add: neo_filtered_nodes_def cypher_limit_def demo_fields sort_rows)
     (simp add: sort_desc_def)

lemma f2: "map_sum id fg_nodes (neo_get_filtered_graph None None 0 0.3 (Some [''growth'']) 100 demo_neo_db) = Inr [row0]"
  by (simp add: neo_get_filtered_graph_def Let_def demo_neo_filtered_nodes)

lemma f2e: "map_sum id fg_edges (neo_get_filtered_graph None None 0 0.3 None 100 demo_neo_db) = Inr [demo_edge]"
  by (simp add: neo_get_filtered_graph_def Let_def demo_neo_filtered_nodes demo_fields demo_edges_between)

subsection \<open>Filtered graphs\<close>

lemma in_sql_limitD: "x \<in> set (sql_limit limit xs) \<Longrightarrow> x \<in> set xs"
  by (rule subsetD[OF set_sql_limit])

lemma in_py_slice_toD: "x \<in> set (py_slice_to limit xs) \<Longrightarrow> x \<in> set xs"
  by (rule subsetD[OF set_py_slice_to])

lemma simple_filtered_parts:
  "fg_nodes (get_filtered_graph node_types sources min_confidence min_weight tags limit db) =
     filtered_nodes node_types sources min_confidence limit db"
  "fg_edges (get_filtered_graph node_types sources min_confidence min_weight tags limit db) =
     sql_edges_between (map r_id (filtered_nodes node_types sources min_confidence limit db))
       min_weight (map snd (edges_table db))"
  by (simp_all add: get_filtered_graph_def Let_def)

lemma neo_filtered_parts:
  assumes "neo_get_filtered_graph node_types sources min_confidence min_weight tags limit ndb = Inr g"
  shows "fg_edges g = edges_between (map r_id (fg_nodes g)) min_weight
       (map (\<lambda>r. rel_edge (rel_start r) (rel_end r) r) (neo_rels ndb))"
    and "neo_filtered_nodes node_types sources min_confidence tags limit ndb = Inr (fg_nodes g)"
proof -
  obtain nodes where n: "neo_filtered_nodes node_types sources min_confidence tags limit ndb = Inr nodes"
    using assms by (cases "neo_filtered_nodes node_types sources min_confidence tags limit ndb")
      (simp_all add: neo_get_filtered_graph_def)
  from assms have g: "\<lparr>fg_nodes = nodes,
      fg_edges = edges_between (map r_id nodes) min_weight
         (map (\<lambda>r. rel_edge (rel_start r) (rel_end r) r) (neo_rels ndb)),
      fg_total_nodes = int (length nodes),
      fg_total_edges = int (length (edges_between (map r_id nodes) min_weight
         (map (\<lambda>r. rel_edge (rel_start r) (rel_end r) r) (neo_rels ndb))))\<rparr> = g"
    unfolding neo_get_filtered_graph_def n by (simp add: Let_def)
  have fn: "fg_nodes g = nodes" unfolding g[symmetric] by simp
  have fe: "fg_edges g = edges_between (map r_id nodes) min_weight
         (map (\<lambda>r. rel_edge (rel_start r) (rel_end r) r) (neo_rels ndb))"
    unfolding g[symmetric] by simp
  show "fg_edges g = edges_between (map r_id (fg_nodes g)) min_weight
       (map (\<lambda>r. rel_edge (rel_start r) (rel_end r) r) (neo_rels ndb))"
    unfolding fn by (rule fe)
  show "neo_filtered_nodes node_types sources min_confidence tags limit ndb = Inr (fg_nodes g)"
    unfolding fn by (rule n)
qed

text \<open>
  C8. On both clients every edge of a filtered graph has its source id and its target id
  among the ids of the returned nodes, and a weight of at least \<open>min_weight\<close>. (The id of
  a row of the SQLite table is an option, so there the statement reads \<open>Some id\<close>.)
\<close>

theorem filtered_graph_edges_closed:
  "(\<forall>e \<in> set (fg_edges (get_filtered_graph node_types sources min_confidence min_weight tags limit db)).
      Some (e_source_id e) \<in> set (map r_id (fg_nodes (get_filtered_graph node_types sources min_confidence min_weight tags limit db))) \<and>
      Some (e_target_id e) \<in> set (map r_id (fg_nodes (get_filtered_graph node_types sources min_confidence min_weight tags limit db))) \<and>
      min_weight \<le> e_weight e) \<and>
   (\<forall>g. neo_get_filtered_graph node_types sources min_confidence min_weight tags limit ndb = Inr g \<longrightarrow>
      (\<forall>e \<in> set (fg_edges g).
         e_source_id e \<in> set (map r_id (fg_nodes g)) \<and>
         e_target_id e \<in> set (map r_id (fg_nodes g)) \<and>
         min_weight \<le> e_weight e))"
proof
  show "\<forall>e \<in> set (fg_edges (get_filtered_graph node_types sources min_confidence min_weight tags limit db)).
      Some (e_source_id e) \<in> set (map r_id (fg_nodes (get_filtered_graph node_types sources min_confidence min_weight tags limit db))) \<and>
      Some (e_target_id e) \<in> set (map r_id (fg_nodes (get_filtered_graph node_types sources min_confidence min_weight tags limit db))) \<and>
      min_weight \<le> e_weight e"
    unfolding simple_filtered_parts
  proof
    fix e
    assume "e \<in> set (sql_edges_between (map r_id (filtered_nodes node_types sources min_confidence limit db))
       min_weight (map snd (edges_table db)))"
    then show "Some (e_source_id e) \<in> set (map r_id (filtered_nodes node_types sources min_confidence limit db)) \<and>
      Some (e_target_id e) \<in> set (map r_id (filtered_nodes node_types sources min_confidence limit db)) \<and>
      min_weight \<le> e_weight e"
      by (rule sql_edges_between_edge)
  qed
  show "\<forall>g. neo_get_filtered_graph node_types sources min_confidence min_weight tags limit ndb = Inr g \<longrightarrow>
      (\<forall>e \<in> set (fg_edges g).
         e_source_id e \<in> set (map r_id (fg_nodes g)) \<and>
         e_target_id e \<in> set (map r_id (fg_nodes g)) \<and>
         min_weight \<le> e_weight e)"
  proof (intro allI impI ballI)
    fix g e
    assume g: "neo_get_filtered_graph node_types sources min_confidence min_weight tags limit ndb = Inr g"
      and e: "e \<in> set (fg_edges g)"
    from e have "e \<in> set (edges_between (map r_id (fg_nodes g)) min_weight
        (map (\<lambda>r. rel_edge (rel_start r) (rel_end r) r) (neo_rels ndb)))"
      unfolding neo_filtered_parts(1) [OF g, symmetric] .
    then show "e_source_id e \<in> set (map r_id (fg_nodes g)) \<and>
         e_target_id e \<in> set (map r_id (fg_nodes g)) \<and>
         min_weight \<le> e_weight e"
      by (rule edges_between_edge)
  qed
qed

lemma demo_neo_graph:
  "\<exists>g. neo_get_filtered_graph None None 0 0.3 None 100 demo_neo_db = Inr g \<and>
        fg_edges g = [demo_edge]"
  by (simp add: neo_get_filtered_graph_def Let_def demo_neo_filtered_nodes demo_fields
      demo_edges_between)

theorem filtered_graph_edges_closed_witness:
  "demo_edge \<in> set (fg_edges (get_filtered_graph None None 0 0.3 None 100 demo_db)) \<and>
   Some (e_source_id demo_edge) \<in>
     set (map r_id (fg_nodes (get_filtered_graph None None 0 0.3 None 100 demo_db))) \<and>
   Some (e_target_id demo_edge) \<in>
     set (map r_id (fg_nodes (get_filtered_graph None None 0 0.3 None 100 demo_db))) \<and>
   0.3 \<le> e_weight demo_edge \<and>
   (\<exists>g. neo_get_filtered_graph None None 0 0.3 None 100 demo_neo_db = Inr g \<and>
        demo_edge \<in> set (fg_edges g) \<and>
        e_source_id demo_edge \<in> set (map r_id (fg_nodes g)) \<and>
        e_target_id demo_edge \<in> set (map r_id (fg_nodes g)))"
proof -
  note c = filtered_graph_edges_closed [of None None 0 "0.3" None 100 demo_db demo_neo_db]
  have a: "demo_edge \<in> set (fg_edges (get_filtered_graph None None 0 0.3 None 100 demo_db))"
    by (simp add: f1e)
  from c have s: "\<forall>e \<in> set (fg_edges (get_filtered_graph None None 0 0.3 None 100 demo_db)).
      Some (e_source_id e) \<in> set (map r_id (fg_nodes (get_filtered_graph None None 0 0.3 None 100 demo_db))) \<and>
      Some (e_target_id e) \<in> set (map r_id (fg_nodes (get_filtered_graph None None 0 0.3 None 100 demo_db))) \<and>
      0.3 \<le> e_weight e"
    by (rule conjunct1)
  from c have n: "\<forall>g. neo_get_filtered_graph None None 0 0.3 None 100 demo_neo_db = Inr g \<longrightarrow>
      (\<forall>e \<in> set (fg_edges g).
         e_source_id e \<in> set (map r_id (fg_nodes g)) \<and>
         e_target_id e \<in> set (map r_id (fg_nodes g)) \<and>
         0.3 \<le> e_weight e)"
    by (rule conjunct2)
  obtain g where g: "neo_get_filtered_graph None None 0 0.3 None 100 demo_neo_db = Inr g"
    and ge: "fg_edges g = [demo_edge]"
    using demo_neo_graph by (elim exE conjE)
  have b: "demo_edge \<in> set (fg_edges g)" by (simp add: ge)
  from n g have "\<forall>e \<in> set (fg_edges g).
         e_source_id e \<in> set (map r_id (fg_nodes g)) \<and>
         e_target_id e \<in> set (map r_id (fg_nodes g)) \<and>
         0.3 \<le> e_weight e"
    by (elim allE impE) assumption+
  from bspec[OF this b] bspec[OF s a] g b a show ?thesis
    by (intro conjI exI[of _ g]) (elim conjE, assumption)+
qed

subsection \<open>Audience graphs\<close>

lemma simple_relevant_Some:
  "simple_relevant audience node = Some n \<Longrightarrow>
     \<not> is_expansion n \<and> an_row n = node \<and>
     (\<exists>d. r_audience_relevance_json node = Relevance d \<and> relevance_get d audience > 0.0)"
  by (cases "r_audience_relevance_json node")
     (auto simp: simple_relevant_def split: if_splits)

lemma neo_relevant_Some:
  "neo_relevant audience node = Some n \<Longrightarrow>
     \<not> is_expansion n \<and> an_row n = node \<and>
     (\<exists>d. r_audience_relevance_json node = Relevance d \<and> relevance_get d audience > 0.1)"
  by (cases "r_audience_relevance_json node")
     (auto simp: neo_relevant_def Let_def split: if_splits)

lemma expansion_nodes_flag: "n \<in> set (expansion_nodes ids rels) \<Longrightarrow> is_expansion n"
  by (auto simp: expansion_nodes_def)

lemma filter_expansion_nodes: "filter (\<lambda>n. \<not> is_expansion n) (expansion_nodes ids rels) = []"
  by (simp add: filter_empty_conv expansion_nodes_flag)

lemma length_filter_slice:
  assumes l: "0 \<le> limit"
  shows "int (length (filter P (py_slice_to limit xs))) \<le> limit"
proof -
  have "length (filter P (py_slice_to limit xs)) \<le> length (py_slice_to limit xs)"
    by (rule length_filter_le)
  with length_py_slice_to[OF l, of xs] show ?thesis by linarith
qed

lemma map_filter_mem: "n \<in> set (List.map_filter f xs) \<Longrightarrow> \<exists>x. f x = Some n"
  by (auto simp: List.map_filter_def)

lemma simple_nodes:
  "ag_nodes (get_audience_focused_graph audience limit db) = simple_relevant_nodes audience limit db"
  by (simp add: get_audience_focused_graph_def Let_def)

lemma neo_nodes_cases:
  "ag_nodes (neo_get_audience_focused_graph audience limit db) = [] \<or>
   ag_nodes (neo_get_audience_focused_graph audience limit db) =
     neo_focused_nodes audience limit db @
     expansion_nodes (map (\<lambda>n. r_id (an_row n)) (neo_focused_nodes audience limit db)) (neo_rels db)"
  by (cases "neo_audience_nodes audience db = []")
     (simp_all add: neo_get_audience_focused_graph_def Let_def)

lemma simple_node_relevant:
  assumes "n \<in> set (simple_relevant_nodes audience limit db)"
  shows "\<not> is_expansion n \<and>
    (\<exists>d. r_audience_relevance_json (an_row n) = Relevance d \<and> relevance_get d audience > 0.0)"
proof -
  from assms have "n \<in> set (sort_desc relevance_score (List.map_filter (simple_relevant audience)
       (sort_desc r_confidence
          (filter (\<lambda>r. r_audience_relevance_json r \<noteq> SqlNull) (nodes_table db)))))"
    unfolding simple_relevant_nodes_def Let_def by (rule in_py_slice_toD)
  then have "n \<in> set (List.map_filter (simple_relevant audience)
       (sort_desc r_confidence
          (filter (\<lambda>r. r_audience_relevance_json r \<noteq> SqlNull) (nodes_table db))))"
    by (simp only: set_sort_desc)
  then obtain x where "simple_relevant audience x = Some n"
    using map_filter_mem by fastforce
  from simple_relevant_Some[OF this] show ?thesis by simp
qed

lemma neo_focused_relevant:
  assumes "n \<in> set (neo_focused_nodes audience limit db)"
  shows "\<exists>d. r_audience_relevance_json (an_row n) = Relevance d \<and> relevance_get d audience > 0.1"
proof -
  from assms have "n \<in> set (sort_desc (\<lambda>x. (relevance_score x, r_confidence (an_row x)))
       (neo_audience_nodes audience db))"
    unfolding neo_focused_nodes_def by (rule in_py_slice_toD)
  then have "n \<in> set (neo_audience_nodes audience db)"
    by (simp only: set_sort_desc)
  then obtain x where "neo_relevant audience x = Some n"
    unfolding neo_audience_nodes_def Let_def using map_filter_mem by fastforce
  from neo_relevant_Some[OF this] show ?thesis by simp
qed

lemma neo_node_relevant:
  assumes n: "n \<in> set (ag_nodes (neo_get_audience_focused_graph audience limit db))"
    and ne: "\<not> is_expansion n"
  shows "\<exists>d. r_audience_relevance_json (an_row n) = Relevance d \<and> relevance_get d audience > 0.1"
proof -
  from neo_nodes_cases[of audience limit db] show ?thesis
  proof
    assume "ag_nodes (neo_get_audience_focused_graph audience limit db) = []"
    with n show ?thesis by simp
  next
    assume "ag_nodes (neo_get_audience_focused_graph audience limit db) =
     neo_focused_nodes audience limit db @
     expansion_nodes (map (\<lambda>n. r_id (an_row n)) (neo_focused_nodes audience limit db)) (neo_rels db)"
    with n have "n \<in> set (neo_focused_nodes audience limit db) \<or>
        n \<in> set (expansion_nodes (map (\<lambda>n. r_id (an_row n)) (neo_focused_nodes audience limit db))
                   (neo_rels db))"
      by simp
    then have "n \<in> set (neo_focused_nodes audience limit db)"
      using ne expansion_nodes_flag by auto
    then show ?thesis by (rule neo_focused_relevant)
  qed
qed

lemma neo_focused_count:
  assumes l: "0 \<le> limit"
  shows "int (length (filter (\<lambda>n. \<not> is_expansion n)
           (ag_nodes (neo_get_audience_focused_graph audience limit db)))) \<le> limit"
proof -
  from neo_nodes_cases[of audience limit db] show ?thesis
  proof
    assume "ag_nodes (neo_get_audience_focused_graph audience limit db) = []"
    with l show ?thesis by simp
  next
    assume eq: "ag_nodes (neo_get_audience_focused_graph audience limit db) =
     neo_focused_nodes audience limit db @
     expansion_nodes (map (\<lambda>n. r_id (an_row n)) (neo_focused_nodes audience limit db)) (neo_rels db)"
    have "int (length (filter (\<lambda>n. \<not> is_expansion n) (neo_focused_nodes audience limit db))) \<le> limit"
      unfolding neo_focused_nodes_def by (rule length_filter_slice[OF l])
    then show ?thesis unfolding eq by (simp add: filter_expansion_nodes)
  qed
qed

lemma simple_focused_count:
  assumes l: "0 \<le> limit"
  shows "int (length (filter (\<lambda>n. \<not> is_expansion n)
           (ag_nodes (get_audience_focused_graph audience limit db)))) \<le> limit"
  unfolding simple_nodes simple_relevant_nodes_def Let_def by (rule length_filter_slice[OF l])

text \<open>
  C9, amended. For a limit that is not negative, an audience graph holds at most \<open>limit\<close>
  nodes that are not expansion nodes, on both clients; for every limit, each such node has
  a stored relevance for the audience above 0.1 on the Neo4j client and above 0.0 on the
  SQLite client.
\<close>

theorem audience_focus_bounds:
  "(0 \<le> limit \<longrightarrow>
      int (length (filter (\<lambda>n. \<not> is_expansion n)
        (ag_nodes (neo_get_audience_focused_graph audience limit ndb)))) \<le> limit \<and>
      int (length (filter (\<lambda>n. \<not> is_expansion n)
        (ag_nodes (get_audience_focused_graph audience limit db)))) \<le> limit) \<and>
   (\<forall>n \<in> set (ag_nodes (neo_get_audience_focused_graph audience limit ndb)). \<not> is_expansion n \<longrightarrow>
      (\<exists>d. r_audience_relevance_json (an_row n) = Relevance d \<and> relevance_get d audience > 0.1)) \<and>
   (\<forall>n \<in> set (ag_nodes (get_audience_focused_graph audience limit db)). \<not> is_expansion n \<longrightarrow>
      (\<exists>d. r_audience_relevance_json (an_row n) = Relevance d \<and> relevance_get d audience > 0.0))"
proof (intro conjI impI ballI)
  assume "0 \<le> limit"
  then show "int (length (filter (\<lambda>n. \<not> is_expansion n)
        (ag_nodes (neo_get_audience_focused_graph audience limit ndb)))) \<le> limit"
    by (rule neo_focused_count)
next
  assume "0 \<le> limit"
  then show "int (length (filter (\<lambda>n. \<not> is_expansion n)
        (ag_nodes (get_audience_focused_graph audience limit db)))) \<le> limit"
    by (rule simple_focused_count)
next
  fix n
  assume "n \<in> set (ag_nodes (neo_get_audience_focused_graph audience limit ndb))" "\<not> is_expansion n"
  then show "\<exists>d. r_audience_relevance_json (an_row n) = Relevance d \<and> relevance_get d audience > 0.1"
    by (rule neo_node_relevant)
next
  fix n
  assume "n \<in> set (ag_nodes (get_audience_focused_graph audience limit db))"
  then have "n \<in> set (simple_relevant_nodes audience limit db)"
    by (simp only: simple_nodes)
  from simple_node_relevant[OF this]
  show "\<exists>d. r_audience_relevance_json (an_row n) = Relevance d \<and> relevance_get d audience > 0.0"
    by (rule conjunct2)
qed

lemma neo_nodes_nonempty:
  "neo_audience_nodes audience db \<noteq> [] \<Longrightarrow>
   ag_nodes (neo_get_audience_focused_graph audience limit db) =
     neo_focused_nodes audience limit db @
     expansion_nodes (map (\<lambda>n. r_id (an_row n)) (neo_focused_nodes audience limit db)) (neo_rels db)"
  by (simp add: neo_get_audience_focused_graph_def Let_def)

lemma focus0_fields:
  "an_row (focus0 s) = row0" "\<not> is_expansion (focus0 s)" "relevance_score (focus0 s) = s"
  "an_row (sfocus0 s) = srow0" "\<not> is_expansion (sfocus0 s)" "relevance_score (sfocus0 s) = s"
  by (simp_all add: focus0_def sfocus0_def)

lemma demo_neo_relevant:
  "neo_relevant ''investors'' row0 = Some (focus0 (0.4 * 1.2))"
  "neo_relevant ''investors'' row1 = None"
  by (simp_all add: neo_relevant_def Let_def demo_fields relevance_get_def focus0_def)

lemma demo_neo_audience: "neo_audience_nodes ''investors'' demo_neo_db = [focus0 (0.4 * 1.2)]"
  by (simp add: neo_audience_nodes_def Let_def demo_fields sort_rows List.map_filter_def demo_neo_relevant)

lemma demo_neo_focused: "neo_focused_nodes ''investors'' 5 demo_neo_db = [focus0 (0.4 * 1.2)]"
  by (simp add: neo_focused_nodes_def demo_neo_audience sort_desc_def py_slice_to_def)

lemma demo_simple_relevant:
  "simple_relevant ''investors'' srow0 = Some (sfocus0 0.4)"
  "simple_relevant ''investors'' srow1 =
     Some \<lparr>an_row = srow1, relevance_score = 0.05, is_expansion = False\<rparr>"
  by (simp_all add: simple_relevant_def demo_fields relevance_get_def sfocus0_def)

lemma demo_simple_sorted:
  "sort_desc relevance_score
     [sfocus0 0.4, \<lparr>an_row = srow1, relevance_score = 0.05, is_expansion = False\<rparr>] =
   [sfocus0 0.4, \<lparr>an_row = srow1, relevance_score = 0.05, is_expansion = False\<rparr>]"
  by (simp add: sort_desc_def focus0_fields)

lemma demo_simple_nodes:
  "simple_relevant_nodes ''investors'' 5 demo_db =
     [sfocus0 0.4, \<lparr>an_row = srow1, relevance_score = 0.05, is_expansion = False\<rparr>]"
  "simple_relevant_nodes ''investors'' (- 1) demo_db = [sfocus0 0.4]"
proof -
  have rows: "sort_desc r_confidence
      (filter (\<lambda>r. r_audience_relevance_json r \<noteq> SqlNull) (nodes_table demo_db)) =
      [srow0, srow1]"
    by (simp add: demo_fields sort_rows)
  have rel: "List.map_filter (simple_relevant ''investors'') [srow0, srow1] =
      [sfocus0 0.4, \<lparr>an_row = srow1, relevance_score = 0.05, is_expansion = False\<rparr>]"
    by (simp add: List.map_filter_def demo_simple_relevant)
  show "simple_relevant_nodes ''investors'' 5 demo_db =
     [sfocus0 0.4, \<lparr>an_row = srow1, relevance_score = 0.05, is_expansion = False\<rparr>]"
    unfolding simple_relevant_nodes_def Let_def rows rel demo_simple_sorted
    by (simp add: py_slice_to_def)
  show "simple_relevant_nodes ''investors'' (- 1) demo_db = [sfocus0 0.4]"
    unfolding simple_relevant_nodes_def Let_def rows rel demo_simple_sorted
    by (simp add: py_slice_to_def)
qed

text \<open>
  C9, as stated, fails for a negative limit: with limit \<open>-1\<close> the SQLite client returns one
  node, which is no expansion node, and one is more than the limit.
\<close>

theorem audience_negative_limit_counterexample:
  "ag_nodes (get_audience_focused_graph ''investors'' (- 1) demo_db) = [sfocus0 0.4] \<and>
   \<not> is_expansion (sfocus0 0.4) \<and>
   \<not> int (length [sfocus0 0.4]) \<le> - 1"
  by (simp add: get_audience_focused_graph_def Let_def demo_simple_nodes focus0_fields)

theorem audience_focus_bounds_witness:
  "(0::int) \<le> 5 \<and>
   int (length (filter (\<lambda>n. \<not> is_expansion n)
     (ag_nodes (neo_get_audience_focused_graph ''investors'' 5 demo_neo_db)))) \<le> 5 \<and>
   int (length (filter (\<lambda>n. \<not> is_expansion n)
     (ag_nodes (get_audience_focused_graph ''investors'' 5 demo_db)))) \<le> 5 \<and>
   focus0 (0.4 * 1.2) \<in> set (ag_nodes (neo_get_audience_focused_graph ''investors'' 5 demo_neo_db)) \<and>
   \<not> is_expansion (focus0 (0.4 * 1.2)) \<and>
   (\<exists>d. r_audience_relevance_json (an_row (focus0 (0.4 * 1.2))) = Relevance d \<and>
        relevance_get d ''investors'' > 0.1) \<and>
   sfocus0 0.4 \<in> set (ag_nodes (get_audience_focused_graph ''investors'' 5 demo_db)) \<and>
   (\<exists>d. r_audience_relevance_json (an_row (sfocus0 0.4)) = Relevance d \<and>
        relevance_get d ''investors'' > 0.0)"
proof -
  note c = audience_focus_bounds [of 5 "''investors''" demo_neo_db demo_db]
  have l: "(0::int) \<le> 5" by simp
  have n: "focus0 (0.4 * 1.2) \<in> set (ag_nodes (neo_get_audience_focused_graph ''investors'' 5 demo_neo_db))"
    by (simp add: neo_nodes_nonempty demo_neo_audience demo_neo_focused)
  have s: "sfocus0 0.4 \<in> set (ag_nodes (get_audience_focused_graph ''investors'' 5 demo_db))"
    by (simp add: get_audience_focused_graph_def Let_def demo_simple_nodes)
  have e: "\<not> is_expansion (focus0 (0.4 * 1.2))" "\<not> is_expansion (sfocus0 0.4)"
    by (simp_all add: focus0_fields)
  from c l have counts: "int (length (filter (\<lambda>n. \<not> is_expansion n)
        (ag_nodes (neo_get_audience_focused_graph ''investors'' 5 demo_neo_db)))) \<le> 5 \<and>
      int (length (filter (\<lambda>n. \<not> is_expansion n)
        (ag_nodes (get_audience_focused_graph ''investors'' 5 demo_db)))) \<le> 5"
    by (elim conjE impE) (assumption, rule conjI)
  from c have "\<forall>n \<in> set (ag_nodes (neo_get_audience_focused_graph ''investors'' 5 demo_neo_db)).
      \<not> is_expansion n \<longrightarrow>
      (\<exists>d. r_audience_relevance_json (an_row n) = Relevance d \<and> relevance_get d ''investors'' > 0.1)"
    by (elim conjE)
  from bspec[OF this n] e(1)
  have rn: "\<exists>d. r_audience_relevance_json (an_row (focus0 (0.4 * 1.2))) = Relevance d \<and>
        relevance_get d ''investors'' > 0.1"
    by (rule mp)
  from c have "\<forall>n \<in> set (ag_nodes (get_audience_focused_graph ''investors'' 5 demo_db)).
      \<not> is_expansion n \<longrightarrow>
      (\<exists>d. r_audience_relevance_json (an_row n) = Relevance d \<and> relevance_get d ''investors'' > 0.0)"
    by (elim conjE)
  from bspec[OF this s] e(2)
  have rs: "\<exists>d. r_audience_relevance_json (an_row (sfocus0 0.4)) = Relevance d \<and>
        relevance_get d ''investors'' > 0.0"
    by (rule mp)
  from l counts n e(1) rn s rs show ?thesis
    by (intro conjI) (elim conjE, assumption)+
qed

subsection \<open>Where the SQLite client differs\<close>

lemma demo_search:
  "search_nodes ''revenue'' 10 demo_db = []"
  by (simp add: search_nodes_def Let_def sql_limit_def demo_fields sort_desc_def lower_letters)

lemma demo_neo_search:
  "neo_search_nodes ''revenue'' 10 demo_neo_db = Inr [row1]"
  by (simp add: neo_search_nodes_def cypher_limit_def demo_fields sort_desc_def to_lower_def
      lower_letters)

text \<open>
  C7 fails on the SQLite client: a stored node whose tag contains the query, but whose
  content and source do not, is not found by \<open>search_nodes\<close> there, while the Neo4j
  client finds it on the same content.
\<close>

theorem search_misses_tags:
  "list_ex (\<lambda>tag. contains (to_lower tag) (to_lower ''revenue'')) (r_tags srow1) \<and>
   srow1 \<in> set (nodes_table demo_db) \<and>
   search_nodes ''revenue'' 10 demo_db = [] \<and>
   neo_search_nodes ''revenue'' 10 demo_neo_db = Inr [row1]"
  by (simp add: demo_search demo_neo_search demo_fields to_lower_def lower_letters)

lemma simple_filtered_graph_tags_unused:
  "get_filtered_graph node_types sources min_confidence min_weight tags limit db =
   get_filtered_graph node_types sources min_confidence min_weight None limit db"
  by (simp add: get_filtered_graph_def)

text \<open>
  C6 fails on the SQLite client: \<open>get_filtered_graph\<close> with the tag filter
  \<open>["growth"]\<close> returns a node that carries no such tag, while the Neo4j client leaves it
  out on the same content.
\<close>

theorem filtered_graph_ignores_tags:
  "fg_nodes (get_filtered_graph None None 0 0.3 (Some [''growth'']) 100 demo_db) = [srow0, srow1] \<and>
   \<not> list_ex (\<lambda>tag. tag \<in> set [''growth'']) (r_tags srow1) \<and>
   map_sum id fg_nodes (neo_get_filtered_graph None None 0 0.3 (Some [''growth'']) 100 demo_neo_db)
     = Inr [row0]"
  by (simp add: f1 f2 demo_fields)

end
